theory Spec2Isabelle
  imports Complex_Main "HOL-Library.Char_ord" "HOL-Library.List_Lexorder"
begin

section \<open>Python values, errors and dictionaries\<close>

text \<open>
  The exceptions the modelled code can raise. All of them are subclasses of Python's
  \<^verbatim>\<open>Exception\<close>, so an \<^verbatim>\<open>except Exception\<close> clause catches every one of them.
  \<open>MonthlyCapReached\<close> is the bare \<^verbatim>\<open>Exception("Monthly post cap reached")\<close> of
  \<^verbatim>\<open>update_usage_metrics\<close>; \<open>ModelError\<close> stands for whatever the zero-shot pipeline raises.
\<close>

datatype py_error =
    KeyError | TypeError | ValueError | AttributeError | OSError | JSONDecodeError
  | RuntimeError | ClientError | MonthlyCapReached | ModelError

datatype 'a outcome = Returns 'a | Raises py_error

text \<open>\<^verbatim>\<open>try: body  except Exception as e: handler(e)\<close> on a computation without state.\<close>

definition try_except :: "'a outcome \<Rightarrow> (py_error \<Rightarrow> 'a outcome) \<Rightarrow> 'a outcome" where
  "try_except body handler = (case body of Returns v \<Rightarrow> Returns v | Raises e \<Rightarrow> handler e)"

text \<open>
  A Python \<^verbatim>\<open>dict\<close> keeps its keys in insertion order: assigning to a key that is present
  replaces the value in place, assigning to a new key appends it. It is modelled as an
  association list; \<open>dict_values\<close> is \<^verbatim>\<open>list(d.values())\<close>.
\<close>

type_synonym ('k, 'v) dict = "('k \<times> 'v) list"

fun dict_get :: "('k, 'v) dict \<Rightarrow> 'k \<Rightarrow> 'v option" where
  "dict_get [] k = None"
| "dict_get ((k', v) # d) k = (if k' = k then Some v else dict_get d k)"

fun dict_set :: "'k \<Rightarrow> 'v \<Rightarrow> ('k, 'v) dict \<Rightarrow> ('k, 'v) dict" where
  "dict_set k v [] = [(k, v)]"
| "dict_set k v ((k', v') # d) = (if k' = k then (k, v) # d else (k', v') # dict_set k v d)"

fun dict_del :: "'k \<Rightarrow> ('k, 'v) dict \<Rightarrow> ('k, 'v) dict" where
  "dict_del k [] = []"
| "dict_del k ((k', v') # d) = (if k' = k then dict_del k d else (k', v') # dict_del k d)"

definition dict_keys :: "('k, 'v) dict \<Rightarrow> 'k list" where
  "dict_keys d = map fst d"

definition dict_values :: "('k, 'v) dict \<Rightarrow> 'v list" where
  "dict_values d = map snd d"

definition dict_has :: "('k, 'v) dict \<Rightarrow> 'k \<Rightarrow> bool" where
  "dict_has d k = (k \<in> set (dict_keys d))"

section \<open>Accounts, configuration and the classifier's state\<close>

text \<open>
  A user object as the platform API returns it and as the JSON stores hold it. A key that
  the code reads with \<^verbatim>\<open>.get\<close>, pops or may find missing is an optional field; the field
  \<open>id_key\<close> is the key \<^verbatim>\<open>"id"\<close>. Identifiers and timestamps are strings, counts are
  integers, as in the API's schema. The last two keys are the ones the re-evaluation of
  the relevant accounts adds.
\<close>

record public_metrics =
  followers_count :: "int option"
  tweet_count :: "int option"

record account =
  id_key :: "string option"
  username :: "string option"
  metrics :: "public_metrics option"
  too_many_followers :: "bool option"
  classified_at :: "string option"
  last_checked_at :: "string option"
  last_relevant_tweet_count :: "nat option"

text \<open>
  The thresholds set in \<^verbatim>\<open>AccountClassifier.__init__\<close>. The two float literals are kept as
  the reals they denote. For \<open>relevant_tweet_ratio\<close> this agrees with the IEEE arithmetic of the
  source: the double nearest to 0.4 exceeds 0.4 by \<open>0.4 * 2^-54\<close>, so for a list of \<open>n\<close> posts the
  rounded product \<^verbatim>\<open>n * 0.4\<close> is exactly \<open>2n/5\<close> when 5 divides \<open>n\<close>, and otherwise lies within
  rounding distance of the non-integer \<open>2n/5\<close>; comparing an integer count against it gives the
  same answer as comparing against \<open>2n/5\<close>.
\<close>

record config =
  max_followers :: int
  min_tweets :: int
  classification_threshold :: real
  relevant_tweet_ratio :: real
  max_retries :: int
  tweets_per_user :: nat

definition default_config :: config where
  "default_config = \<lparr> max_followers = 2000, min_tweets = 300,
     classification_threshold = 0.8, relevant_tweet_ratio = 0.4,
     max_retries = 3, tweets_per_user = 5 \<rparr>"

text \<open>
  A JSON file on disk: it does not exist, it holds a value, or it holds text that
  \<^verbatim>\<open>json.load\<close> rejects (for instance after a write that failed half way).
\<close>

datatype 'a json_file = Missing | Content 'a | Corrupt

text \<open>
  What the file system does with \<^verbatim>\<open>with open(path, 'w') as f: json.dump(value, f)\<close>:
  the write goes through, \<^verbatim>\<open>open\<close> fails and leaves the file as it was, or the file
  was opened (and truncated) and the dump fails.
\<close>

datatype write_outcome = WriteOk | OpenFails | DumpFails

definition write_json :: "write_outcome \<Rightarrow> 'a \<Rightarrow> 'a json_file \<Rightarrow> 'a json_file \<times> unit outcome" where
  "write_json w v f =
     (case w of
        WriteOk \<Rightarrow> (Content v, Returns ())
      | OpenFails \<Rightarrow> (f, Raises OSError)
      | DumpFails \<Rightarrow> (Corrupt, Raises OSError))"

text \<open>
  The part of an \<^verbatim>\<open>AccountClassifier\<close> object the claims are about: the two in-memory
  dictionaries keyed by account id, and the two files \<^verbatim>\<open>data/accounts_relevant.json\<close> and
  \<^verbatim>\<open>data/accounts_irrelevant.json\<close>.
\<close>

record classifier_state =
  relevant_accounts :: "(string, account) dict"
  irrelevant_accounts :: "(string, account) dict"
  relevant_file :: "account list json_file"
  irrelevant_file :: "account list json_file"

section \<open>\<^verbatim>\<open>AccountClassifier.meets_metric_thresholds\<close> and the inline filter\<close>

definition followers_of :: "account \<Rightarrow> int" where
  "followers_of u =
     (case metrics u of None \<Rightarrow> 0
      | Some m \<Rightarrow> (case followers_count m of None \<Rightarrow> 0 | Some f \<Rightarrow> f))"

definition tweet_count_of :: "account \<Rightarrow> int" where
  "tweet_count_of u =
     (case metrics u of None \<Rightarrow> 0
      | Some m \<Rightarrow> (case tweet_count m of None \<Rightarrow> 0 | Some t \<Rightarrow> t))"

definition meets_metric_thresholds :: "config \<Rightarrow> account \<Rightarrow> bool" where
  "meets_metric_thresholds cfg user_data =
     (followers_of user_data < max_followers cfg \<and> tweet_count_of user_data > min_tweets cfg)"

text \<open>
  The test \<^verbatim>\<open>fetch_recent_tweets\<close> applies to each user of \<^verbatim>\<open>includes.users\<close>, and the loop
  around it that fills \<^verbatim>\<open>users_map\<close>. Both branches of the loop read \<^verbatim>\<open>user["id"]\<close>.
\<close>

definition passes_inline_filter :: "config \<Rightarrow> account \<Rightarrow> bool" where
  "passes_inline_filter cfg user =
     (tweet_count_of user \<ge> min_tweets cfg \<and> followers_of user < max_followers cfg)"

fun collect_users :: "config \<Rightarrow> account list \<Rightarrow> (string, account) dict
    \<Rightarrow> (string, account) dict outcome" where
  "collect_users cfg [] users_map = Returns users_map"
| "collect_users cfg (user # users) users_map =
     (case id_key user of
        None \<Rightarrow> Raises KeyError
      | Some uid \<Rightarrow>
          if passes_inline_filter cfg user
          then collect_users cfg users (dict_set uid user users_map)
          else collect_users cfg users users_map)"

section \<open>\<^verbatim>\<open>AccountClassifier.save_account\<close>\<close>

text \<open>
  The line \<^verbatim>\<open>save_account\<close> logs: one of the two \<^verbatim>\<open>logging.info\<close> messages, or the
  \<^verbatim>\<open>logging.error\<close> of the handler with \<^verbatim>\<open>user_data.get('id', 'unknown')\<close>.
\<close>

datatype save_report =
    SavedRelevant string | SavedIrrelevant string | ErrorSaving string py_error

text \<open>
  The body of the \<^verbatim>\<open>try\<close> block. It mutates the object and the caller's \<^verbatim>\<open>user_data\<close>
  in place, so it returns both as they are when it finishes or raises. \<open>now\<close> is
  \<^verbatim>\<open>datetime.now(timezone.utc).isoformat()\<close> and \<open>w\<close> is what the file system does with the
  one write the body performs.
\<close>

definition save_account_body :: "config \<Rightarrow> string \<Rightarrow> write_outcome \<Rightarrow> bool
    \<Rightarrow> classifier_state \<times> account \<Rightarrow> (classifier_state \<times> account) \<times> save_report outcome" where
  "save_account_body cfg now w relevant su =
     (let (s, user_data) = su in
      case id_key user_data of
        None \<Rightarrow> ((s, user_data), Raises KeyError)
      | Some user_id \<Rightarrow>
          let u1 = user_data\<lparr>classified_at := Some now\<rparr> in
          if relevant then
            let s1 = s\<lparr>irrelevant_accounts := dict_del user_id (irrelevant_accounts s)\<rparr>;
                u2 = u1\<lparr>too_many_followers := None\<rparr>;
                s2 = s1\<lparr>relevant_accounts := dict_set user_id u2 (relevant_accounts s1)\<rparr>;
                (f, r) = write_json w (dict_values (relevant_accounts s2)) (relevant_file s2)
            in ((s2\<lparr>relevant_file := f\<rparr>, u2),
                (case r of Returns _ \<Rightarrow> Returns (SavedRelevant user_id) | Raises e \<Rightarrow> Raises e))
          else
            let u2 = (if followers_of u1 \<ge> max_followers cfg
                      then u1\<lparr>too_many_followers := Some True\<rparr> else u1);
                s1 = s\<lparr>relevant_accounts := dict_del user_id (relevant_accounts s)\<rparr>;
                s2 = s1\<lparr>irrelevant_accounts := dict_set user_id u2 (irrelevant_accounts s1)\<rparr>;
                (f, r) = write_json w (dict_values (irrelevant_accounts s2)) (irrelevant_file s2)
            in ((s2\<lparr>irrelevant_file := f\<rparr>, u2),
                (case r of Returns _ \<Rightarrow> Returns (SavedIrrelevant user_id) | Raises e \<Rightarrow> Raises e)))"

definition save_account :: "config \<Rightarrow> string \<Rightarrow> write_outcome \<Rightarrow> bool
    \<Rightarrow> classifier_state \<times> account \<Rightarrow> (classifier_state \<times> account) \<times> save_report outcome" where
  "save_account cfg now w relevant su =
     (let (su', r) = save_account_body cfg now w relevant su in
      (su', try_except r
              (\<lambda>e. Returns (ErrorSaving
                 (case id_key (snd su') of None \<Rightarrow> ''unknown'' | Some i \<Rightarrow> i) e))))"

section \<open>\<^verbatim>\<open>AccountClassifier.classify_tweets\<close> and \<^verbatim>\<open>AccountClassifier.process_user\<close>\<close>

text \<open>
  The zero-shot pipeline is an external capability: \<open>classifier\<close> maps the batch of texts
  to one list of label scores (\<^verbatim>\<open>result["scores"]\<close>) per result, or raises.
\<close>

text \<open>
  The counting loop: \<^verbatim>\<open>relevant_tweets\<close> goes up by one for each result that has
  \<^verbatim>\<open>any(score > self.classification_threshold for score in result["scores"])\<close>.
\<close>

fun count_relevant :: "config \<Rightarrow> real list list \<Rightarrow> nat" where
  "count_relevant cfg [] = 0"
| "count_relevant cfg (scores # results) =
     (if list_ex (\<lambda>score. score > classification_threshold cfg) scores
      then count_relevant cfg results + 1 else count_relevant cfg results)"

definition classify_tweets :: "config \<Rightarrow> (string list \<Rightarrow> real list list outcome)
    \<Rightarrow> string list \<Rightarrow> bool outcome" where
  "classify_tweets cfg classifier tweets =
     (if tweets = [] then Returns False
      else try_except
        (case classifier tweets of
           Raises e \<Rightarrow> Raises e
         | Returns results \<Rightarrow>
             let relevant_tweets = count_relevant cfg results
             in Returns (real relevant_tweets \<ge> real (length tweets) * relevant_tweet_ratio cfg))
        (\<lambda>e. Returns False))"

text \<open>
  What surrounds one call of \<^verbatim>\<open>process_user\<close>: the clock, the file system, the platform API
  behind \<^verbatim>\<open>fetch_user_tweets\<close> (the texts it returns for a user id, or the exception that
  escapes it) and the zero-shot pipeline. The pacing sleeps have no effect on the state.
\<close>

record pipeline_env =
  now_iso :: string
  disk :: write_outcome
  fetch_user_tweets :: "string \<Rightarrow> string list outcome"
  classifier :: "string list \<Rightarrow> real list list outcome"

text \<open>The four exits of \<^verbatim>\<open>process_user\<close>, named as the log line each one writes.\<close>

datatype pipeline_exit = MetricFailed | NoRecentPosts | ClassifiedRelevant | ClassifiedIrrelevant

definition process_user :: "config \<Rightarrow> pipeline_env \<Rightarrow> classifier_state \<times> account
    \<Rightarrow> (classifier_state \<times> account) \<times> pipeline_exit outcome" where
  "process_user cfg env su =
     (let (s, user_data) = su in
      case id_key user_data of
        None \<Rightarrow> (su, Raises KeyError)
      | Some user_id \<Rightarrow>
          if \<not> meets_metric_thresholds cfg user_data then
            (let (su', r) = save_account cfg (now_iso env) (disk env) False su in
             (su', case r of Returns _ \<Rightarrow> Returns MetricFailed | Raises e \<Rightarrow> Raises e))
          else
            (case fetch_user_tweets env user_id of
               Raises e \<Rightarrow> (su, Raises e)
             | Returns recent_tweets \<Rightarrow>
                 if length recent_tweets = 0 then (su, Returns NoRecentPosts)
                 else
                   (case classify_tweets cfg (classifier env) recent_tweets of
                      Raises e \<Rightarrow> (su, Raises e)
                    | Returns is_relevant \<Rightarrow>
                        let (su', r) = save_account cfg (now_iso env) (disk env) is_relevant su in
                        (su', case r of
                                Returns _ \<Rightarrow> Returns (if is_relevant then ClassifiedRelevant
                                                       else ClassifiedIrrelevant)
                              | Raises e \<Rightarrow> Raises e))))"

section \<open>\<^verbatim>\<open>AccountClassifier.load_existing_accounts\<close>\<close>

text \<open>
  Times are counted in microseconds since the epoch. \<^verbatim>\<open>datetime.fromisoformat\<close> is taken as a
  parameter: it rejects the string (\<^verbatim>\<open>ValueError\<close>), or yields a naive datetime, or an aware
  one, given here as the instant it denotes. Subtracting a naive datetime from the aware
  \<^verbatim>\<open>now_utc\<close> raises \<^verbatim>\<open>TypeError\<close>; \<^verbatim>\<open>timedelta.days\<close> is the floor of the difference in days.
\<close>

datatype parsed_datetime = ParseFails | Naive int | Aware int

definition microseconds_per_day :: int where
  "microseconds_per_day = 86400 * 1000000"

definition timedelta_days :: "int \<Rightarrow> int" where
  "timedelta_days delta = delta div microseconds_per_day"

text \<open>\<^verbatim>\<open>for acc in accounts: d[acc["id"]] = acc\<close>, with the dictionary as it is when a key is missing.\<close>

fun load_into :: "account list \<Rightarrow> (string, account) dict \<Rightarrow> (string, account) dict \<times> unit outcome" where
  "load_into [] d = (d, Returns ())"
| "load_into (acc # accounts) d =
     (case id_key acc of
        None \<Rightarrow> (d, Raises KeyError)
      | Some i \<Rightarrow> load_into accounts (dict_set i acc d))"

text \<open>
  The body of the ageing loop over \<^verbatim>\<open>self.irrelevant_accounts.items()\<close>: whether the
  account goes into \<^verbatim>\<open>fresh_irrelevant\<close>. The subtraction is outside the \<^verbatim>\<open>try\<close> that
  guards the parsing, so its \<^verbatim>\<open>TypeError\<close> escapes.
\<close>

definition fresh_enough :: "(string \<Rightarrow> parsed_datetime) \<Rightarrow> int \<Rightarrow> account \<Rightarrow> bool outcome" where
  "fresh_enough fromisoformat now_utc account_data =
     (if too_many_followers account_data = Some True then Returns True
      else
        let classified_str = (case classified_at account_data of None \<Rightarrow> [] | Some c \<Rightarrow> c) in
        if classified_str = [] then Returns True
        else
          (case fromisoformat classified_str of
             ParseFails \<Rightarrow> Returns True
           | Naive t \<Rightarrow> Raises TypeError
           | Aware classified_time \<Rightarrow>
               let days_elapsed = timedelta_days (now_utc - classified_time) in
               Returns (days_elapsed < 30)))"

fun age_out :: "(string \<Rightarrow> parsed_datetime) \<Rightarrow> int \<Rightarrow> (string, account) dict
    \<Rightarrow> (string, account) dict \<Rightarrow> (string, account) dict outcome" where
  "age_out fromisoformat now_utc [] fresh_irrelevant = Returns fresh_irrelevant"
| "age_out fromisoformat now_utc ((user_id, account_data) # items) fresh_irrelevant =
     (case fresh_enough fromisoformat now_utc account_data of
        Raises e \<Rightarrow> Raises e
      | Returns keep \<Rightarrow>
          if keep
          then age_out fromisoformat now_utc items (dict_set user_id account_data fresh_irrelevant)
          else age_out fromisoformat now_utc items fresh_irrelevant)"

text \<open>
  \<open>utcnow\<close> is \<^verbatim>\<open>datetime.utcnow()\<close>; the code drops its microseconds and makes it aware.
  Both handlers of the \<^verbatim>\<open>try\<close> block re-raise.
\<close>

definition load_existing_accounts :: "(string \<Rightarrow> parsed_datetime) \<Rightarrow> int \<Rightarrow> classifier_state
    \<Rightarrow> classifier_state \<times> unit outcome" where
  "load_existing_accounts fromisoformat utcnow s =
     (let (s1, r1) =
        (case relevant_file s of
           Missing \<Rightarrow> (s, Returns ())
         | Corrupt \<Rightarrow> (s, Raises JSONDecodeError)
         | Content accounts \<Rightarrow>
             (let (d, r) = load_into accounts (relevant_accounts s)
              in (s\<lparr>relevant_accounts := d\<rparr>, r)))
      in case r1 of
        Raises e \<Rightarrow> (s1, Raises e)
      | Returns _ \<Rightarrow>
         (let (s2, r2) =
            (case irrelevant_file s1 of
               Missing \<Rightarrow> (s1, Returns ())
             | Corrupt \<Rightarrow> (s1, Raises JSONDecodeError)
             | Content accounts \<Rightarrow>
                 (let (d, r) = load_into accounts (irrelevant_accounts s1)
                  in (s1\<lparr>irrelevant_accounts := d\<rparr>, r)))
          in case r2 of
            Raises e \<Rightarrow> (s2, Raises e)
          | Returns _ \<Rightarrow>
             (let now_utc = utcnow - utcnow mod 1000000 in
              case age_out fromisoformat now_utc (irrelevant_accounts s2) [] of
                Raises e \<Rightarrow> (s2, Raises e)
              | Returns fresh_irrelevant \<Rightarrow>
                  (s2\<lparr>irrelevant_accounts := fresh_irrelevant\<rparr>, Returns ()))))"

text \<open>The object as \<^verbatim>\<open>__init__\<close> has it just before it calls \<^verbatim>\<open>load_existing_accounts\<close>.\<close>

definition init_state :: "account list json_file \<Rightarrow> account list json_file \<Rightarrow> classifier_state" where
  "init_state rf irf = \<lparr> relevant_accounts = [], irrelevant_accounts = [],
     relevant_file = rf, irrelevant_file = irf \<rparr>"

section \<open>\<^verbatim>\<open>AccountClassifier.handle_rate_limit\<close>\<close>

text \<open>
  Python's \<^verbatim>\<open>int(s)\<close> on an ASCII string: surrounding whitespace is stripped, a sign may come
  first, then decimal digits, where single underscores may separate digits. Anything
  else is a \<^verbatim>\<open>ValueError\<close> (\<open>None\<close>).
\<close>

definition is_space :: "char \<Rightarrow> bool" where
  "is_space c = (c = CHR '' '' \<or> (9 \<le> (of_char c :: nat) \<and> (of_char c :: nat) \<le> 13)
                 \<or> (28 \<le> (of_char c :: nat) \<and> (of_char c :: nat) \<le> 31))"

definition is_digit :: "char \<Rightarrow> bool" where
  "is_digit c = (48 \<le> (of_char c :: nat) \<and> (of_char c :: nat) \<le> 57)"

fun int_digits :: "bool \<Rightarrow> nat \<Rightarrow> string \<Rightarrow> nat option" where
  "int_digits after_digit acc [] = (if after_digit then Some acc else None)"
| "int_digits after_digit acc (c # cs) =
     (if is_digit c then int_digits True (10 * acc + (of_char c - 48)) cs
      else if c = CHR ''_'' \<and> after_digit then int_digits False acc cs
      else None)"

definition py_int :: "string \<Rightarrow> int option" where
  "py_int s =
     (let t = rev (dropWhile is_space (rev (dropWhile is_space s))) in
      case t of
        [] \<Rightarrow> None
      | c # cs \<Rightarrow>
          if c = CHR ''-'' then map_option (\<lambda>n. - int n) (int_digits False 0 cs)
          else if c = CHR ''+'' then map_option int (int_digits False 0 cs)
          else map_option int (int_digits False 0 t))"

text \<open>
  An HTTP response, as far as the handler reads it: the status and the headers (header
  names in lower case, as the code looks them up).
\<close>

record response =
  status :: int
  headers :: "(string, string) dict"

text \<open>
  The handler returns \<^verbatim>\<open>False\<close> without waiting, or sleeps \<open>wait_time\<close> seconds and returns
  \<^verbatim>\<open>True\<close>. \<open>current_time\<close> is \<^verbatim>\<open>int(time.time())\<close>.
\<close>

datatype rate_decision = NoRetry | SleepThenRetry int

definition header_get :: "response \<Rightarrow> string \<Rightarrow> string \<Rightarrow> string" where
  "header_get r name dflt = (case dict_get (headers r) name of None \<Rightarrow> dflt | Some v \<Rightarrow> v)"

definition handle_rate_limit :: "config \<Rightarrow> int \<Rightarrow> response \<Rightarrow> int \<Rightarrow> rate_decision outcome" where
  "handle_rate_limit cfg current_time r retry_count =
     (let reset = header_get r ''x-rate-limit-reset'' ''0'' in
      if status r \<noteq> 429 then Returns NoRetry
      else if retry_count \<ge> max_retries cfg then Returns NoRetry
      else if reset \<noteq> [] then
        (case py_int reset of
           None \<Rightarrow> Raises ValueError
         | Some reset_time \<Rightarrow>
             Returns (SleepThenRetry (min (max (reset_time - current_time) 1) 900)))
      else Returns (SleepThenRetry (min 60 900)))"

section \<open>The tweet store of \<^verbatim>\<open>fetch_tweets.py\<close>\<close>

text \<open>
  A post as the API returns it with \<^verbatim>\<open>tweet.fields = created_at,text,id\<close>: the three keys
  are always there, all three are strings.
\<close>

record post =
  tweet_id :: string
  created_at :: string
  tweet_text :: string

text \<open>
  A \<^verbatim>\<open>FetchTweets\<close> object, as far as the store goes: \<^verbatim>\<open>self.all_tweets\<close>, from username
  to the posts collected, and the file \<^verbatim>\<open>data/all_tweets.json\<close>.
\<close>

record tweets_state =
  all_tweets :: "(string, post list) dict"
  all_tweets_file :: "(string, post list) dict json_file"

text \<open>
  \<^verbatim>\<open>[tweet for tweet in tweets if tweet["id"] not in existing_ids]\<close>, where
  \<^verbatim>\<open>existing_ids\<close> is the set of ids of \<open>existing\<close>.
\<close>

definition unseen_tweets :: "post list \<Rightarrow> post list \<Rightarrow> post list" where
  "unseen_tweets existing tweets =
     filter (\<lambda>tweet. tweet_id tweet \<notin> set (map tweet_id existing)) tweets"

text \<open>The merging loop of \<^verbatim>\<open>save_all_tweets\<close> over \<^verbatim>\<open>self.all_tweets.items()\<close>.\<close>

fun merge_into :: "(string, post list) dict \<Rightarrow> (string, post list) dict
    \<Rightarrow> (string, post list) dict" where
  "merge_into [] existing_data = existing_data"
| "merge_into ((name, tweets) # items) existing_data =
     (case dict_get existing_data name of
        None \<Rightarrow> merge_into items (dict_set name tweets existing_data)
      | Some old \<Rightarrow>
          merge_into items (dict_set name (old @ unseen_tweets old tweets) existing_data))"

definition cleaned_data :: "(string, post list) dict \<Rightarrow> (string, post list) dict" where
  "cleaned_data existing_data = filter (\<lambda>(user, tweets). tweets \<noteq> []) existing_data"

definition save_all_tweets :: "write_outcome \<Rightarrow> tweets_state \<Rightarrow> tweets_state \<times> unit outcome" where
  "save_all_tweets w st =
     (case (case all_tweets_file st of
              Missing \<Rightarrow> Returns []
            | Content d \<Rightarrow> Returns d
            | Corrupt \<Rightarrow> Raises JSONDecodeError) of
        Raises e \<Rightarrow> (st, Raises e)
      | Returns existing_data \<Rightarrow>
          (let (f, r) = write_json w (cleaned_data (merge_into (all_tweets st) existing_data))
                          (all_tweets_file st)
           in (st\<lparr>all_tweets_file := f\<rparr>, r)))"

text \<open>
  \<^verbatim>\<open>get_latest_collected_time\<close>: the greatest \<^verbatim>\<open>created_at\<close> string of the posts collected for
  the user, compared as Python compares strings (lexicographically by code point).
\<close>

definition get_latest_collected_time :: "tweets_state \<Rightarrow> string \<Rightarrow> string option" where
  "get_latest_collected_time st name =
     (case dict_get (all_tweets st) name of
        None \<Rightarrow> None
      | Some [] \<Rightarrow> None
      | Some (tweet # tweets) \<Rightarrow> Some (foldl max (created_at tweet) (map created_at tweets)))"

text \<open>
  What surrounds one call of \<^verbatim>\<open>FetchTweets.process_account\<close>: \<open>week_ago\<close> is
  \<^verbatim>\<open>(datetime.utcnow() - timedelta(days=7)).isoformat() + "Z"\<close>; \<open>format_time_rfc3339\<close> is the
  static method of that name, which parses and prints a timestamp or raises
  \<^verbatim>\<open>ValueError\<close>; \<open>fetched\<close> is what the call of \<^verbatim>\<open>fetch_user_tweets\<close> returns (it catches
  every exception and then returns the empty list); \<open>tweets_disk\<close> is what the file system
  does with the write of \<^verbatim>\<open>save_all_tweets\<close>.
\<close>

record crawl_env =
  week_ago :: string
  format_time_rfc3339 :: "string \<Rightarrow> string outcome"
  fetched :: "post list"
  tweets_disk :: write_outcome

definition account_username :: "account \<Rightarrow> string" where
  "account_username account =
     (case username account of
        Some name \<Rightarrow> name
      | None \<Rightarrow> ''User_'' @ (case id_key account of None \<Rightarrow> ''None'' | Some i \<Rightarrow> i))"

definition since_time :: "crawl_env \<Rightarrow> tweets_state \<Rightarrow> string \<Rightarrow> string" where
  "since_time env st name =
     (case get_latest_collected_time st name of
        None \<Rightarrow> week_ago env
      | Some latest \<Rightarrow> if latest = [] then week_ago env else latest)"

definition process_account :: "crawl_env \<Rightarrow> account \<Rightarrow> tweets_state \<Rightarrow> tweets_state \<times> unit outcome" where
  "process_account env account st =
     (let name = account_username account in
      if id_key account = None \<or> id_key account = Some [] then (st, Returns ())
      else
        (case format_time_rfc3339 env (since_time env st name) of
           Raises e \<Rightarrow> (st, Raises e)
         | Returns since \<Rightarrow>
             let tweets = fetched env in
             if tweets \<noteq> [] then
               (let existing = (case dict_get (all_tweets st) name of None \<Rightarrow> [] | Some ts \<Rightarrow> ts);
                    new_tweets = unseen_tweets existing tweets;
                    st1 = st\<lparr>all_tweets := dict_set name (existing @ new_tweets) (all_tweets st)\<rparr>
                in save_all_tweets (tweets_disk env) st1)
             else (st, Returns ())))"

section \<open>The re-evaluation scripts for the relevant accounts\<close>

text \<open>
  \<^verbatim>\<open>reevaluate_relevant_accounts.py\<close> and \<^verbatim>\<open>reclassify_relevant.py\<close> are processes of their own:
  they have no classifier object and work on the two store files (the first also reads
  \<^verbatim>\<open>data/all_tweets.json\<close>). What surrounds a run: the clock (\<open>script_now\<close> the instant,
  \<open>script_now_iso\<close> its \<^verbatim>\<open>isoformat()\<close>), the parser, the test
  \<^verbatim>\<open>datetime.fromisoformat(s.replace("Z", "")).replace(tzinfo=utc) > cutoff_time\<close> on the
  \<^verbatim>\<open>created_at\<close> string of a post (it raises \<^verbatim>\<open>ValueError\<close> on a string that does not parse),
  the API behind \<^verbatim>\<open>fetch_user_metrics\<close> (\<open>None\<close> is the empty dict it returns on failure) and
  what the file system does with the two writes.
\<close>

record script_env =
  script_now :: int
  script_now_iso :: string
  script_fromisoformat :: "string \<Rightarrow> parsed_datetime"
  created_after_cutoff :: "string \<Rightarrow> bool outcome"
  fetch_user_metrics :: "string \<Rightarrow> account option"
  relevant_disk :: write_outcome
  irrelevant_disk :: write_outcome

definition DAYS_BACK :: int where
  "DAYS_BACK = 30"

definition MAX_FOLLOWERS :: int where
  "MAX_FOLLOWERS = 2000"

text \<open>\<^verbatim>\<open>new_data.get("public_metrics", {}).get("followers_count", 0)\<close>.\<close>

definition fetched_followers :: "account option \<Rightarrow> int" where
  "fetched_followers new_data = (case new_data of None \<Rightarrow> 0 | Some d \<Rightarrow> followers_of d)"

text \<open>\<^verbatim>\<open>load_json\<close>: the content of the file, the empty list when there is no file.\<close>

definition load_json :: "account list json_file \<Rightarrow> account list outcome" where
  "load_json f = (case f of Missing \<Rightarrow> Returns [] | Content v \<Rightarrow> Returns v
                  | Corrupt \<Rightarrow> Raises JSONDecodeError)"

text \<open>The list comprehension that selects the posts created after the cutoff.\<close>

fun recent_relevant_tweets :: "(string \<Rightarrow> bool outcome) \<Rightarrow> post list \<Rightarrow> post list outcome" where
  "recent_relevant_tweets after [] = Returns []"
| "recent_relevant_tweets after (tweet # tweets) =
     (case after (created_at tweet) of
        Raises e \<Rightarrow> Raises e
      | Returns b \<Rightarrow>
          (case recent_relevant_tweets after tweets of
             Raises e \<Rightarrow> Raises e
           | Returns rest \<Rightarrow> Returns (if b then tweet # rest else rest)))"

text \<open>
  The condition \<^verbatim>\<open>len(recent_relevant_tweets) == 0 and (now - last_checked_at).days > DAYS_BACK\<close>;
  the subtraction is evaluated only when there is no recent post, and raises on a naive
  \<^verbatim>\<open>last_checked_at\<close>.
\<close>

definition inactive :: "script_env \<Rightarrow> parsed_datetime \<Rightarrow> nat \<Rightarrow> bool outcome" where
  "inactive env last_checked n =
     (if n = 0 then
        (case last_checked of
           ParseFails \<Rightarrow> Raises ValueError
         | Naive t \<Rightarrow> Raises TypeError
         | Aware t \<Rightarrow> Returns (timedelta_days (script_now env - t) > DAYS_BACK))
      else Returns False)"

text \<open>
  The loop of \<^verbatim>\<open>purge_irrelevant_accounts\<close> over the relevant accounts; \<open>tweets_by_user\<close> is
  \<open>None\<close> when \<^verbatim>\<open>load_json\<close> gave the list \<^verbatim>\<open>[]\<close> for a missing tweets file, which has no
  \<^verbatim>\<open>.get\<close>.
\<close>

fun purge_loop :: "script_env \<Rightarrow> (string, post list) dict option \<Rightarrow> account list
    \<Rightarrow> account list \<Rightarrow> account list \<Rightarrow> (account list \<times> account list) outcome" where
  "purge_loop env tweets_by_user [] remaining_relevant purged_accounts =
     Returns (remaining_relevant, purged_accounts)"
| "purge_loop env tweets_by_user (account # accounts) remaining_relevant purged_accounts =
     (case id_key account of
        None \<Rightarrow> Raises KeyError
      | Some user_id \<Rightarrow>
     (case username account of
        None \<Rightarrow> Raises KeyError
      | Some name \<Rightarrow>
     (let last_checked = script_fromisoformat env
            (case last_checked_at account of None \<Rightarrow> ''1970-01-01T00:00:00Z'' | Some c \<Rightarrow> c) in
      if last_checked = ParseFails then Raises ValueError
      else
     (case tweets_by_user of
        None \<Rightarrow> Raises AttributeError
      | Some d \<Rightarrow>
     (case recent_relevant_tweets (created_after_cutoff env)
             (case dict_get d name of None \<Rightarrow> [] | Some ts \<Rightarrow> ts) of
        Raises e \<Rightarrow> Raises e
      | Returns recent \<Rightarrow>
          let followers = fetched_followers (fetch_user_metrics env user_id);
              account1 = account\<lparr>last_relevant_tweet_count := Some (length recent),
                                  last_checked_at := Some (script_now_iso env)\<rparr>
          in
          (case inactive env last_checked (length recent) of
             Raises e \<Rightarrow> Raises e
           | Returns gone \<Rightarrow>
               if gone then
                 purge_loop env tweets_by_user accounts remaining_relevant
                   (purged_accounts @ [account1])
               else if followers \<ge> MAX_FOLLOWERS then
                 purge_loop env tweets_by_user accounts remaining_relevant
                   (purged_accounts @ [account1\<lparr>too_many_followers := Some True\<rparr>])
               else
                 purge_loop env tweets_by_user accounts (remaining_relevant @ [account1])
                   purged_accounts))))))"

text \<open>
  \<^verbatim>\<open>purge_irrelevant_accounts\<close> on the relevant file, the irrelevant file and the tweets
  file; it returns the two store files as it leaves them.
\<close>

definition purge_irrelevant_accounts :: "script_env
    \<Rightarrow> account list json_file \<times> account list json_file \<times> (string, post list) dict json_file
    \<Rightarrow> (account list json_file \<times> account list json_file) \<times> unit outcome" where
  "purge_irrelevant_accounts env files =
     (let (rf, irf, tf) = files in
      case load_json rf of
        Raises e \<Rightarrow> ((rf, irf), Raises e)
      | Returns relevant \<Rightarrow>
     (case load_json irf of
        Raises e \<Rightarrow> ((rf, irf), Raises e)
      | Returns irrelevant \<Rightarrow>
     (if tf = Corrupt then ((rf, irf), Raises JSONDecodeError)
      else
     (case purge_loop env (case tf of Content d \<Rightarrow> Some d | _ \<Rightarrow> None) relevant [] [] of
        Raises e \<Rightarrow> ((rf, irf), Raises e)
      | Returns (remaining_relevant, purged_accounts) \<Rightarrow>
          (let (rf', r1) = write_json (relevant_disk env) remaining_relevant rf in
           case r1 of
             Raises e \<Rightarrow> ((rf', irf), Raises e)
           | Returns _ \<Rightarrow>
               (let (irf', r2) = write_json (irrelevant_disk env) (irrelevant @ purged_accounts) irf
                in ((rf', irf'), r2)))))))"

text \<open>
  \<^verbatim>\<open>reclassify_large_accounts\<close>. Its two loads catch every exception and go on with the
  dictionary as it is by then; \<open>load_quietly\<close> is one of them.
\<close>

definition load_quietly :: "account list json_file \<Rightarrow> (string, account) dict" where
  "load_quietly f = (case f of Content accounts \<Rightarrow> fst (load_into accounts []) | _ \<Rightarrow> [])"

fun reclassify_loop :: "script_env \<Rightarrow> (string, account) dict \<Rightarrow> (string, account) dict
    \<Rightarrow> (string, account) dict \<Rightarrow> (string, account) dict \<times> (string, account) dict" where
  "reclassify_loop env [] updated_relevant irrelevant = (updated_relevant, irrelevant)"
| "reclassify_loop env ((user_id, user_data) # items) updated_relevant irrelevant =
     (case fetch_user_metrics env user_id of
        None \<Rightarrow> reclassify_loop env items (dict_set user_id user_data updated_relevant) irrelevant
      | Some new_data \<Rightarrow>
          if followers_of new_data \<ge> MAX_FOLLOWERS then
            reclassify_loop env items updated_relevant
              (dict_set user_id
                 (user_data\<lparr>too_many_followers := Some True,
                             classified_at := Some (script_now_iso env)\<rparr>)
                 irrelevant)
          else reclassify_loop env items (dict_set user_id user_data updated_relevant) irrelevant)"

definition reclassify_large_accounts :: "script_env
    \<Rightarrow> account list json_file \<times> account list json_file
    \<Rightarrow> (account list json_file \<times> account list json_file) \<times> unit outcome" where
  "reclassify_large_accounts env files =
     (let (rf, irf) = files;
          relevant = load_quietly rf;
          irrelevant = load_quietly irf
      in
      if relevant = [] then ((rf, irf), Returns ())
      else
        (let (updated_relevant, irrelevant') = reclassify_loop env relevant [] irrelevant;
             (rf', r1) = write_json (relevant_disk env) (dict_values updated_relevant) rf
         in case r1 of
              Raises e \<Rightarrow> ((rf', irf), Raises e)
            | Returns _ \<Rightarrow>
                (let (irf', r2) = write_json (irrelevant_disk env) (dict_values irrelevant') irf
                 in ((rf', irf'), r2))))"

section \<open>Concrete inputs\<close>

text \<open>A user object with the given id and public metrics and no other key.\<close>

definition user_object :: "string \<Rightarrow> int \<Rightarrow> int \<Rightarrow> account" where
  "user_object i f t = \<lparr> id_key = Some i, username = None,
     metrics = Some \<lparr> followers_count = Some f, tweet_count = Some t \<rparr>,
     too_many_followers = None, classified_at = None, last_checked_at = None,
     last_relevant_tweet_count = None \<rparr>"

text \<open>A zero-shot pipeline that gives the same answer whatever the batch.\<close>

definition answering :: "real list list outcome \<Rightarrow> string list \<Rightarrow> real list list outcome" where
  "answering r tweets = r"

text \<open>A post with the given id, created at the given time.\<close>

definition post_with :: "string \<Rightarrow> string \<Rightarrow> post" where
  "post_with i t = \<lparr> tweet_id = i, created_at = t, tweet_text = ''gm'' \<rparr>"

text \<open>An environment for \<^verbatim>\<open>process_user\<close> with the given answers of the API, the model and the disk.\<close>

definition world :: "string list outcome \<Rightarrow> real list list outcome \<Rightarrow> write_outcome \<Rightarrow> pipeline_env" where
  "world api model w = \<lparr> now_iso = ''2025-03-01T12:00:00+00:00'', disk = w,
     fetch_user_tweets = (\<lambda>user_id. api), classifier = answering model \<rparr>"

text \<open>A \<^verbatim>\<open>fromisoformat\<close> that knows the strings of a table and rejects every other string.\<close>

definition iso_table :: "(string, parsed_datetime) dict \<Rightarrow> string \<Rightarrow> parsed_datetime" where
  "iso_table table str = (case dict_get table str of None \<Rightarrow> ParseFails | Some t \<Rightarrow> t)"

text \<open>The accounts a store file holds; none when there is no file.\<close>

definition stored_accounts :: "account list json_file \<Rightarrow> account list" where
  "stored_accounts f = (case f of Content accounts \<Rightarrow> accounts | _ \<Rightarrow> [])"

text \<open>
  Five stored accounts for the decay on load at 2023-12-14T22:13:20 UTC: classified 31 and
  29 days before, flagged and classified 100 days before, with a timestamp the parser
  rejects, and with no timestamp; and the parser that knows the three timestamps.
\<close>

definition decay_table :: "string \<Rightarrow> parsed_datetime" where
  "decay_table = iso_table
     [(''2023-11-13T22:13:20+00:00'', Aware 1699913600000000),
      (''2023-11-15T22:13:20+00:00'', Aware 1700086400000000),
      (''2023-09-05T22:13:20+00:00'', Aware 1693952000000000)]"

definition stamped :: "account \<Rightarrow> string \<Rightarrow> account" where
  "stamped a t = a\<lparr>classified_at := Some t\<rparr>"

definition decay_accounts :: "account list" where
  "decay_accounts =
     [stamped (user_object ''31'' 100 500) ''2023-11-13T22:13:20+00:00'',
      stamped (user_object ''29'' 100 500) ''2023-11-15T22:13:20+00:00'',
      stamped ((user_object ''100'' 5000 500)\<lparr>too_many_followers := Some True\<rparr>)
        ''2023-09-05T22:13:20+00:00'',
      stamped (user_object ''bad'' 100 500) ''yesterday'',
      user_object ''none'' 100 500]"

text \<open>What \<^verbatim>\<open>save_all_tweets\<close> reads as \<^verbatim>\<open>existing_data\<close> from a file that parses or is not there.\<close>

definition stored_tweets :: "(string, post list) dict json_file \<Rightarrow> (string, post list) dict" where
  "stored_tweets f = (case f of Content d \<Rightarrow> d | _ \<Rightarrow> [])"

text \<open>A \<^verbatim>\<open>format_time_rfc3339\<close> that accepts every string and prints it unchanged.\<close>

definition as_is :: "string \<Rightarrow> string outcome" where
  "as_is s = Returns s"

text \<open>An environment for \<^verbatim>\<open>process_account\<close> with the given batch from the API and the given disk.\<close>

definition crawl_world :: "post list \<Rightarrow> write_outcome \<Rightarrow> crawl_env" where
  "crawl_world batch w = \<lparr> week_ago = ''2025-02-22T12:00:00Z'', format_time_rfc3339 = as_is,
     fetched = batch, tweets_disk = w \<rparr>"

text \<open>The account \<^verbatim>\<open>alice\<close>, and a tweet store that holds her post 1 in memory and on disk.\<close>

definition alice :: account where
  "alice = (user_object ''7'' 100 500)\<lparr>username := Some ''alice''\<rparr>"

definition alice_store :: tweets_state where
  "alice_store = \<lparr> all_tweets = [(''alice'', [post_with ''1'' ''2025-02-27T10:00:00Z''])],
     all_tweets_file = Content [(''alice'', [post_with ''1'' ''2025-02-27T10:00:00Z''])] \<rparr>"

text \<open>
  A run of the purge one day after the promotion: the parser knows the default
  \<^verbatim>\<open>last_checked_at\<close>, every stored post counts as recent, and the API reports 120 followers.
\<close>

definition every_post_recent :: "string \<Rightarrow> bool outcome" where
  "every_post_recent s = Returns True"

definition reporting :: "account option \<Rightarrow> string \<Rightarrow> account option" where
  "reporting new_data user_id = new_data"

definition purge_world :: script_env where
  "purge_world = \<lparr> script_now = 1702678400000000, script_now_iso = ''2023-12-15T22:13:20+00:00'',
     script_fromisoformat = iso_table [(''1970-01-01T00:00:00Z'', Aware 0)],
     created_after_cutoff = every_post_recent,
     fetch_user_metrics = reporting (Some (user_object ''7'' 120 510)),
     relevant_disk = WriteOk, irrelevant_disk = WriteOk \<rparr>"

section \<open>Dictionaries: lookup after update\<close>

lemma dict_get_set_same: "dict_get (dict_set k v d) k = Some v"
  by (induction d) auto

lemma dict_get_set_other: "k' \<noteq> k \<Longrightarrow> dict_get (dict_set k v d) k' = dict_get d k'"
  by (induction d) auto

lemma dict_get_del_same: "dict_get (dict_del k d) k = None"
  by (induction d) auto

lemma dict_get_del_other: "k' \<noteq> k \<Longrightarrow> dict_get (dict_del k d) k' = dict_get d k'"
  by (induction d) auto

lemma dict_has_get: "dict_has d k = (dict_get d k \<noteq> None)"
  by (induction d) (auto simp: dict_has_def dict_keys_def)

lemma dict_get_values: "dict_get d k = Some v \<Longrightarrow> v \<in> set (dict_values d)"
  by (induction d) (auto simp: dict_values_def split: if_splits)

lemma dict_set_same_value: "dict_get d k = Some v \<Longrightarrow> dict_set k v d = d"
  by (induction d) (auto split: if_splits)

lemma dict_keys_set_eq:
  "dict_keys (dict_set k v d) = (if k \<in> set (dict_keys d) then dict_keys d else dict_keys d @ [k])"
  unfolding dict_keys_def by (induction d) (auto split: if_splits)

lemma dict_keys_del_eq: "dict_keys (dict_del k d) = removeAll k (dict_keys d)"
  unfolding dict_keys_def by (induction d) auto

lemma distinct_dict_set: "distinct (dict_keys d) \<Longrightarrow> distinct (dict_keys (dict_set k v d))"
  by (simp add: dict_keys_set_eq)

lemma distinct_dict_del: "distinct (dict_keys d) \<Longrightarrow> distinct (dict_keys (dict_del k d))"
  by (simp add: dict_keys_del_eq distinct_removeAll)

lemma dict_get_None_keys: "(dict_get d k = None) = (k \<notin> set (dict_keys d))"
  unfolding dict_keys_def by (induction d) (auto split: if_splits)

section \<open>The pipeline: rate limits, gates and verdicts\<close>

text \<open>
  C4. The claim: on a 429 within the retry budget the wait is \<open>max (reset - now) 1\<close> capped at
  900 seconds when the reset header is present, and 60 seconds when it is absent. The code
  reads the header with the default \<^verbatim>\<open>'0'\<close>, a non-empty string, so with the header absent
  it takes the branch of a present header with reset time 0: the wait is 1 second, and the
  60-second fallback is reached only by a header that is present and empty.
\<close>

theorem absent_reset_header_waits_one_second:
  "handle_rate_limit default_config 1700000000 \<lparr> status = 429, headers = [] \<rparr> 0
     = Returns (SleepThenRetry 1)"
  by (simp add: handle_rate_limit_def header_get_def default_config_def py_int_def
      is_space_def is_digit_def)

lemma handle_rate_limit_present:
  assumes "status r = 429" and "retry_count < max_retries cfg"
    and "dict_get (headers r) ''x-rate-limit-reset'' = Some v" and "py_int v = Some reset_time"
  shows "handle_rate_limit cfg current_time r retry_count
           = Returns (SleepThenRetry (min (max (reset_time - current_time) 1) 900))"
  using assms by (auto simp add: handle_rate_limit_def header_get_def py_int_def)

text \<open>
  C9. The claim: the inline filter of the keyword search admits exactly the users that pass
  \<open>meets_metric_thresholds\<close>. The filter tests \<open>tweet_count \<ge> min_tweets\<close>, the gate
  \<open>tweet_count > min_tweets\<close>: a user with 300 posts and 100 followers is admitted by
  the filter and rejected by the gate.
\<close>

theorem inline_filter_admits_gate_rejected_user:
  "passes_inline_filter default_config (user_object ''42'' 100 300)
   \<and> \<not> meets_metric_thresholds default_config (user_object ''42'' 100 300)"
  by (simp add: passes_inline_filter_def meets_metric_thresholds_def default_config_def
      user_object_def followers_of_def tweet_count_of_def)

lemma inline_filter_vs_gate:
  "passes_inline_filter cfg u =
     (meets_metric_thresholds cfg u
      \<or> (tweet_count_of u = min_tweets cfg \<and> followers_of u < max_followers cfg))"
  by (auto simp: passes_inline_filter_def meets_metric_thresholds_def)

text \<open>
  C7. An account that passes the metric gate and for which the fetch returns no post leaves
  \<open>process_user\<close> through the exit \<open>NoRecentPosts\<close>: the two dictionaries, the two files and
  the user object (so its \<open>classified_at\<close>) are exactly as before.
\<close>

theorem no_recent_posts_writes_nothing:
  assumes "id_key user_data = Some user_id"
    and "meets_metric_thresholds cfg user_data"
    and "fetch_user_tweets env user_id = Returns []"
  shows "process_user cfg env (s, user_data) = ((s, user_data), Returns NoRecentPosts)"
  using assms by (simp add: process_user_def)

theorem no_recent_posts_writes_nothing_witness:
  "id_key (user_object ''7'' 100 500) = Some ''7''
   \<and> meets_metric_thresholds default_config (user_object ''7'' 100 500)
   \<and> fetch_user_tweets (world (Returns []) (Returns []) WriteOk) ''7'' = Returns []
   \<and> process_user default_config (world (Returns []) (Returns []) WriteOk)
        (init_state Missing (Content [user_object ''7'' 100 500]), user_object ''7'' 100 500)
      = ((init_state Missing (Content [user_object ''7'' 100 500]), user_object ''7'' 100 500),
         Returns NoRecentPosts)"
proof -
  have h1: "id_key (user_object ''7'' 100 500) = Some ''7''"
    by (simp add: user_object_def)
  have h2: "meets_metric_thresholds default_config (user_object ''7'' 100 500)"
    by (simp add: meets_metric_thresholds_def default_config_def user_object_def
        followers_of_def tweet_count_of_def)
  have h3: "fetch_user_tweets (world (Returns []) (Returns []) WriteOk) ''7'' = Returns []"
    by (simp add: world_def)
  show ?thesis
    using h1 h2 h3 no_recent_posts_writes_nothing [OF h1 h2 h3] by simp
qed

lemma classify_tweets_raises:
  "tweets \<noteq> [] \<Longrightarrow> zero_shot tweets = Raises e
   \<Longrightarrow> classify_tweets cfg zero_shot tweets = Returns False"
  by (simp add: classify_tweets_def try_except_def)

lemma save_irrelevant_small:
  assumes "id_key u = Some uid" and "followers_of u < max_followers cfg"
  shows "\<exists>s' rep. save_account cfg now w False (s, u)
                    = ((s', u\<lparr>classified_at := Some now\<rparr>), Returns rep)
     \<and> dict_get (irrelevant_accounts s') uid = Some (u\<lparr>classified_at := Some now\<rparr>)
     \<and> \<not> dict_has (relevant_accounts s') uid
     \<and> (w = WriteOk \<longrightarrow> irrelevant_file s' = Content (dict_values (irrelevant_accounts s')))"
  using assms
  by (cases w)
     (simp_all add: save_account_def save_account_body_def write_json_def try_except_def Let_def
        dict_has_get dict_get_set_same dict_get_del_same followers_of_def)

text \<open>
  C5. When the zero-shot call raises on a non-empty batch, \<open>classify_tweets\<close> returns
  \<^verbatim>\<open>False\<close>; \<open>process_user\<close> then returns normally through the exit \<open>ClassifiedIrrelevant\<close>,
  with the account (stamped with the current time) in the irrelevant dictionary and not in
  the relevant one, and, when the write goes through, with the irrelevant file rewritten
  from that dictionary.
\<close>

theorem classification_error_fails_closed:
  assumes "tweets \<noteq> []" and "classifier env tweets = Raises e"
  shows "classify_tweets cfg (classifier env) tweets = Returns False
     \<and> (id_key u = Some uid \<longrightarrow> meets_metric_thresholds cfg u
          \<longrightarrow> fetch_user_tweets env uid = Returns tweets \<longrightarrow>
         (\<exists>s' u'. process_user cfg env (s, u) = ((s', u'), Returns ClassifiedIrrelevant)
            \<and> u' = u\<lparr>classified_at := Some (now_iso env)\<rparr>
            \<and> dict_get (irrelevant_accounts s') uid = Some u'
            \<and> \<not> dict_has (relevant_accounts s') uid
            \<and> (disk env = WriteOk \<longrightarrow>
                 irrelevant_file s' = Content (dict_values (irrelevant_accounts s')))))"
proof (intro conjI impI)
  show c: "classify_tweets cfg (classifier env) tweets = Returns False"
    using assms by (rule classify_tweets_raises)
  assume u: "id_key u = Some uid" and m: "meets_metric_thresholds cfg u"
    and f: "fetch_user_tweets env uid = Returns tweets"
  from m have small: "followers_of u < max_followers cfg"
    by (simp add: meets_metric_thresholds_def)
  from save_irrelevant_small [OF u small, of "now_iso env" "disk env" s]
  obtain s' rep where
    sv: "save_account cfg (now_iso env) (disk env) False (s, u)
           = ((s', u\<lparr>classified_at := Some (now_iso env)\<rparr>), Returns rep)"
    and rest: "dict_get (irrelevant_accounts s') uid = Some (u\<lparr>classified_at := Some (now_iso env)\<rparr>)"
      "\<not> dict_has (relevant_accounts s') uid"
      "disk env = WriteOk \<longrightarrow> irrelevant_file s' = Content (dict_values (irrelevant_accounts s'))"
    by blast
  have "process_user cfg env (s, u)
          = ((s', u\<lparr>classified_at := Some (now_iso env)\<rparr>), Returns ClassifiedIrrelevant)"
    using u m f c sv assms(1) by (simp add: process_user_def)
  with rest show "\<exists>s' u'. process_user cfg env (s, u) = ((s', u'), Returns ClassifiedIrrelevant)
            \<and> u' = u\<lparr>classified_at := Some (now_iso env)\<rparr>
            \<and> dict_get (irrelevant_accounts s') uid = Some u'
            \<and> \<not> dict_has (relevant_accounts s') uid
            \<and> (disk env = WriteOk \<longrightarrow>
                 irrelevant_file s' = Content (dict_values (irrelevant_accounts s')))"
    by blast
qed

theorem classification_error_fails_closed_witness:
  "[''gm''] \<noteq> []
   \<and> classifier (world (Returns [''gm'']) (Raises ModelError) WriteOk) [''gm''] = Raises ModelError
   \<and> classify_tweets default_config
        (classifier (world (Returns [''gm'']) (Raises ModelError) WriteOk)) [''gm''] = Returns False
   \<and> id_key (user_object ''7'' 100 500) = Some ''7''
   \<and> meets_metric_thresholds default_config (user_object ''7'' 100 500)
   \<and> fetch_user_tweets (world (Returns [''gm'']) (Raises ModelError) WriteOk) ''7''
        = Returns [''gm'']
   \<and> disk (world (Returns [''gm'']) (Raises ModelError) WriteOk) = WriteOk
   \<and> (\<exists>s' u'. process_user default_config (world (Returns [''gm'']) (Raises ModelError) WriteOk)
                  (init_state Missing Missing, user_object ''7'' 100 500)
                = ((s', u'), Returns ClassifiedIrrelevant)
        \<and> dict_get (irrelevant_accounts s') ''7'' = Some u'
        \<and> \<not> dict_has (relevant_accounts s') ''7''
        \<and> irrelevant_file s' = Content (dict_values (irrelevant_accounts s')))"
proof -
  let ?env = "world (Returns [''gm'']) (Raises ModelError) WriteOk"
  have h1: "[''gm''] \<noteq> []" by simp
  have h2: "classifier ?env [''gm''] = Raises ModelError"
    by (simp add: world_def answering_def)
  have h3: "id_key (user_object ''7'' 100 500) = Some ''7''"
    by (simp add: user_object_def)
  have h4: "meets_metric_thresholds default_config (user_object ''7'' 100 500)"
    by (simp add: meets_metric_thresholds_def default_config_def user_object_def
        followers_of_def tweet_count_of_def)
  have h5: "fetch_user_tweets ?env ''7'' = Returns [''gm'']"
    by (simp add: world_def)
  have h6: "disk ?env = WriteOk"
    by (simp add: world_def)
  from classification_error_fails_closed [OF h1 h2, of default_config
      "user_object ''7'' 100 500" "''7''" "init_state Missing Missing"]
  show ?thesis using h2 h3 h4 h5 h6 by blast
qed

text \<open>
  C6. The claim is stated for every list of posts. On the empty list \<open>classify_tweets\<close>
  returns \<^verbatim>\<open>False\<close> before it counts anything, although the count 0 is at least
  0 times the ratio: the rule of the claim holds for the non-empty lists.
\<close>

theorem ratio_rule_empty_batch_counterexample:
  "classify_tweets default_config (answering (Returns [])) [] = Returns False
   \<and> real (count_relevant default_config [])
        \<ge> real (length ([] :: string list)) * relevant_tweet_ratio default_config"
  by (simp add: classify_tweets_def default_config_def)

text \<open>
  C6, amended. On a non-empty batch for which the zero-shot call returns, the verdict is
  \<^verbatim>\<open>True\<close> exactly when the number of results with some score above the threshold is at
  least the number of posts times the ratio; with the thresholds of \<open>default_config\<close>, 5
  posts and 2 such results give \<^verbatim>\<open>True\<close>, 5 posts and 1 such result give \<^verbatim>\<open>False\<close>.
\<close>

theorem ratio_rule_on_nonempty_batch:
  assumes "tweets \<noteq> []" and "zero_shot tweets = Returns results"
  shows "classify_tweets cfg zero_shot tweets
           = Returns (real (count_relevant cfg results)
                        \<ge> real (length tweets) * relevant_tweet_ratio cfg)
     \<and> (length tweets = 5 \<longrightarrow> count_relevant default_config results = 2
          \<longrightarrow> classify_tweets default_config zero_shot tweets = Returns True)
     \<and> (length tweets = 5 \<longrightarrow> count_relevant default_config results = 1
          \<longrightarrow> classify_tweets default_config zero_shot tweets = Returns False)"
  using assms by (simp add: classify_tweets_def try_except_def default_config_def)

theorem ratio_rule_on_nonempty_batch_witness:
  "[''a'', ''b'', ''c'', ''d'', ''e''] \<noteq> []
   \<and> answering (Returns [ [0.9, 0.1], [0.2], [0.85], [0.8], [0.3]]) [''a'', ''b'', ''c'', ''d'', ''e'']
       = Returns [ [0.9, 0.1], [0.2], [0.85], [0.8], [0.3]]
   \<and> length [''a'', ''b'', ''c'', ''d'', ''e''] = 5
   \<and> count_relevant default_config [ [0.9, 0.1], [0.2], [0.85], [0.8], [0.3]] = 2
   \<and> classify_tweets default_config (answering (Returns [ [0.9, 0.1], [0.2], [0.85], [0.8], [0.3]]))
        [''a'', ''b'', ''c'', ''d'', ''e''] = Returns True"
proof -
  let ?tw = "[''a'', ''b'', ''c'', ''d'', ''e'']"
  let ?res = "[ [0.9, 0.1], [0.2], [0.85], [0.8], [0.3]] :: real list list"
  have h1: "?tw \<noteq> []" by simp
  have h2: "answering (Returns ?res) ?tw = Returns ?res"
    by (simp add: answering_def)
  have h3: "length ?tw = 5" by simp
  have h4: "count_relevant default_config ?res = 2"
    by (simp add: default_config_def)
  from ratio_rule_on_nonempty_batch
         [where tweets = ?tw and zero_shot = "answering (Returns ?res)" and results = ?res
            and cfg = default_config]
  show ?thesis using h1 h2 h3 h4 by blast
qed

text \<open>
  C10. \<open>save_account\<close> returns normally on every input. Without the key \<^verbatim>\<open>"id"\<close> nothing
  changes and the \<^verbatim>\<open>KeyError\<close> is logged. When the write fails the \<^verbatim>\<open>OSError\<close> is logged;
  by then the dictionary of the destination store already holds the account, while the file
  of that store is as it was (\<^verbatim>\<open>open\<close> failed) or unreadable (the dump failed).
\<close>

theorem save_account_never_raises:
  assumes "save_account cfg now w relevant (s, u) = ((s', u'), r)"
  shows "(\<exists>report. r = Returns report)
     \<and> (id_key u = None \<longrightarrow> s' = s \<and> u' = u \<and> r = Returns (ErrorSaving ''unknown'' KeyError))
     \<and> (\<forall>i. id_key u = Some i \<longrightarrow> w \<noteq> WriteOk \<longrightarrow>
           r = Returns (ErrorSaving i OSError)
         \<and> dict_get (if relevant then relevant_accounts s' else irrelevant_accounts s') i = Some u'
         \<and> (if relevant then relevant_file s' else irrelevant_file s')
             = (if w = OpenFails then (if relevant then relevant_file s else irrelevant_file s)
                else Corrupt))"
  using assms
  by (cases w; cases relevant; cases "id_key u")
     (auto simp add: save_account_def save_account_body_def write_json_def try_except_def Let_def
        dict_get_set_same)

theorem save_account_never_raises_witness:
  "save_account default_config ''2025-03-01T12:00:00+00:00'' DumpFails True
      (init_state Missing Missing, user_object ''7'' 100 500)
    = ((\<lparr> relevant_accounts =
            [(''7'', (user_object ''7'' 100 500)\<lparr>classified_at := Some ''2025-03-01T12:00:00+00:00''\<rparr>)],
          irrelevant_accounts = [], relevant_file = Corrupt, irrelevant_file = Missing \<rparr>,
        (user_object ''7'' 100 500)\<lparr>classified_at := Some ''2025-03-01T12:00:00+00:00''\<rparr>),
       Returns (ErrorSaving ''7'' OSError))
   \<and> id_key (user_object ''7'' 100 500) = Some ''7'' \<and> DumpFails \<noteq> WriteOk"
proof -
  have h: "save_account default_config ''2025-03-01T12:00:00+00:00'' DumpFails True
      (init_state Missing Missing, user_object ''7'' 100 500)
    = ((\<lparr> relevant_accounts =
            [(''7'', (user_object ''7'' 100 500)\<lparr>classified_at := Some ''2025-03-01T12:00:00+00:00''\<rparr>)],
          irrelevant_accounts = [], relevant_file = Corrupt, irrelevant_file = Missing \<rparr>,
        (user_object ''7'' 100 500)\<lparr>classified_at := Some ''2025-03-01T12:00:00+00:00''\<rparr>),
       Returns (ErrorSaving ''7'' OSError))"
    by (simp add: save_account_def save_account_body_def write_json_def try_except_def
        init_state_def user_object_def dict_values_def Let_def)
  have i: "id_key (user_object ''7'' 100 500) = Some ''7''"
    by (simp add: user_object_def)
  from save_account_never_raises [OF h] i h show ?thesis by simp
qed

section \<open>Decay on load\<close>

lemma load_into_returns:
  "\<forall>a\<in>set accounts. id_key a \<noteq> None \<Longrightarrow> snd (load_into accounts d) = Returns ()"
  by (induction accounts arbitrary: d) auto

lemma load_into_distinct:
  "distinct (dict_keys d) \<Longrightarrow> distinct (dict_keys (fst (load_into accounts d)))"
  by (induction accounts arbitrary: d) (auto simp: distinct_dict_set split: option.splits)

lemma dict_set_values_subset: "set (dict_values (dict_set k v d)) \<subseteq> insert v (set (dict_values d))"
proof (induction d)
  case Nil
  then show ?case by (simp add: dict_values_def)
next
  case (Cons p d)
  obtain k' v' where p: "p = (k', v')" by (cases p)
  show ?case
  proof (cases "k' = k")
    case True
    then show ?thesis by (auto simp: p dict_values_def)
  next
    case False
    then have "set (dict_values (dict_set k v (p # d)))
                 = insert v' (set (dict_values (dict_set k v d)))"
      by (simp add: p dict_values_def)
    with Cons.IH show ?thesis by (auto simp: p dict_values_def)
  qed
qed

lemma load_into_values:
  "set (dict_values (fst (load_into accounts d))) \<subseteq> set accounts \<union> set (dict_values d)"
proof (induction accounts arbitrary: d)
  case Nil
  then show ?case by simp
next
  case (Cons a accounts)
  show ?case
  proof (cases "id_key a")
    case None
    then show ?thesis by auto
  next
    case (Some i)
    have "set (dict_values (fst (load_into accounts (dict_set i a d))))
            \<subseteq> set accounts \<union> set (dict_values (dict_set i a d))"
      by (rule Cons.IH)
    also have "\<dots> \<subseteq> set accounts \<union> insert a (set (dict_values d))"
      using dict_set_values_subset [of i a d] by blast
    finally show ?thesis using Some by auto
  qed
qed

lemma timedelta_days_less_30:
  "(timedelta_days delta < 30) = (delta < 30 * microseconds_per_day)"
proof -
  have D: "microseconds_per_day = 86400000000"
    by (simp add: microseconds_per_day_def)
  have "delta = 86400000000 * (delta div 86400000000) + delta mod 86400000000"
    by simp
  moreover have "0 \<le> delta mod 86400000000" and "delta mod 86400000000 < 86400000000"
    by simp_all
  ultimately show ?thesis
    unfolding timedelta_days_def D by linarith
qed

lemma fresh_enough_aware:
  assumes "too_many_followers a \<noteq> Some True" and "classified_at a = Some c" and "c \<noteq> []"
    and "fromisoformat c = Aware t"
  shows "fresh_enough fromisoformat now_utc a = Returns (now_utc - t < 30 * microseconds_per_day)"
  using assms by (simp add: fresh_enough_def timedelta_days_less_30)

lemma fresh_enough_returns:
  assumes "\<forall>c t. classified_at a = Some c \<longrightarrow> fromisoformat c \<noteq> Naive t"
  shows "\<exists>b. fresh_enough fromisoformat now_utc a = Returns b"
  using assms by (auto simp: fresh_enough_def Let_def split: option.splits parsed_datetime.splits)

lemma age_out_returns:
  assumes "\<forall>a\<in>set (dict_values items). \<exists>b. fresh_enough fromisoformat now_utc a = Returns b"
  shows "\<exists>fr. age_out fromisoformat now_utc items fresh = Returns fr"
  using assms
proof (induction items arbitrary: fresh)
  case Nil
  then show ?case by simp
next
  case (Cons p items)
  obtain uid a where p: "p = (uid, a)" by (cases p)
  from Cons.prems obtain b where b: "fresh_enough fromisoformat now_utc a = Returns b"
    by (auto simp: p dict_values_def)
  have rest: "\<forall>a\<in>set (dict_values items). \<exists>b. fresh_enough fromisoformat now_utc a = Returns b"
    using Cons.prems by (simp add: dict_values_def)
  show ?case
    using Cons.IH [OF rest] b by (simp add: p)
qed

lemma age_out_lookup:
  assumes "distinct (dict_keys items)"
    and "age_out fromisoformat now_utc items fresh = Returns fr"
  shows "dict_get fr uid =
           (case dict_get items uid of
              None \<Rightarrow> dict_get fresh uid
            | Some a \<Rightarrow> if fresh_enough fromisoformat now_utc a = Returns True then Some a
                        else dict_get fresh uid)"
  using assms
proof (induction items arbitrary: fresh)
  case Nil
  then show ?case by simp
next
  case (Cons p items)
  obtain k a where p: "p = (k, a)" by (cases p)
  have d: "distinct (dict_keys items)" and notin: "k \<notin> set (dict_keys items)"
    using Cons.prems(1) by (simp_all add: p dict_keys_def)
  from Cons.prems(2) obtain b where b: "fresh_enough fromisoformat now_utc a = Returns b"
    by (cases "fresh_enough fromisoformat now_utc a") (simp_all add: p)
  define fresh' where "fresh' = (if b then dict_set k a fresh else fresh)"
  have run: "age_out fromisoformat now_utc items fresh' = Returns fr"
    using Cons.prems(2) b by (cases b) (simp_all add: p fresh'_def)
  note ih = Cons.IH [OF d run]
  show ?case
  proof (cases "uid = k")
    case True
    have "dict_get items uid = None"
      using notin True by (simp add: dict_get_None_keys)
    with ih have "dict_get fr uid = dict_get fresh' uid" by simp
    then show ?thesis
      using True b by (simp add: p fresh'_def dict_get_set_same)
  next
    case False
    have "dict_get fresh' uid = dict_get fresh uid"
      using False by (simp add: fresh'_def dict_get_set_other)
    with ih show ?thesis using False by (simp add: p split: option.splits)
  qed
qed

text \<open>
  C2. The claim says an irrelevant account without the permanent flag is dropped exactly
  when \<open>now - classified_at\<close> exceeds 30 days. The code keeps it while
  \<^verbatim>\<open>(now_utc - classified_time).days < 30\<close>, so an account classified exactly 30 days before
  \<open>now_utc\<close> is dropped although its age does not exceed 30 days.
\<close>

theorem decay_at_exactly_30_days_counterexample:
  "load_existing_accounts
      (iso_table [(''2023-11-14T22:13:20+00:00'', Aware 1700000000000000)])
      1702592000000000
      (init_state Missing
         (Content [(user_object ''7'' 100 500)\<lparr>classified_at := Some ''2023-11-14T22:13:20+00:00''\<rparr>]))
    = (\<lparr> relevant_accounts = [], irrelevant_accounts = [], relevant_file = Missing,
          irrelevant_file =
            Content [(user_object ''7'' 100 500)\<lparr>classified_at := Some ''2023-11-14T22:13:20+00:00''\<rparr>] \<rparr>,
       Returns ())
   \<and> \<not> (1702592000000000 - 1700000000000000 > 30 * microseconds_per_day)"
  by (simp add: load_existing_accounts_def init_state_def user_object_def iso_table_def
      fresh_enough_def timedelta_days_def microseconds_per_day_def Let_def)

text \<open>
  C2, amended. With store files that parse, whose accounts all have an id and whose
  timestamps, where they parse, are timezone-aware, \<open>load_existing_accounts\<close> returns; the
  relevant dictionary is what the relevant file loads to, and the irrelevant dictionary
  keeps exactly the loaded accounts for which \<open>fresh_enough\<close> says so. An account with the
  permanent flag is kept whatever its age; so is one whose \<open>classified_at\<close> is missing,
  empty or rejected by the parser; any other account is kept exactly when
  \<open>now_utc - classified_at\<close> is less than 30 days, that is, dropped from 30 whole days on.
\<close>

theorem decay_on_load:
  assumes "rf \<noteq> Corrupt" and "irf \<noteq> Corrupt"
    and "\<forall>a\<in>set (stored_accounts rf) \<union> set (stored_accounts irf). id_key a \<noteq> None"
    and "\<forall>a\<in>set (stored_accounts irf). \<forall>c t. classified_at a = Some c \<longrightarrow> fromisoformat c \<noteq> Naive t"
    and "now_utc = utcnow - utcnow mod 1000000"
  shows "(\<exists>s'. load_existing_accounts fromisoformat utcnow (init_state rf irf) = (s', Returns ())
          \<and> relevant_accounts s' = fst (load_into (stored_accounts rf) [])
          \<and> relevant_file s' = rf \<and> irrelevant_file s' = irf
          \<and> (\<forall>uid. dict_get (irrelevant_accounts s') uid =
                (case dict_get (fst (load_into (stored_accounts irf) [])) uid of
                   None \<Rightarrow> None
                 | Some a \<Rightarrow> if fresh_enough fromisoformat now_utc a = Returns True
                             then Some a else None)))
     \<and> (\<forall>a. (too_many_followers a = Some True
                \<longrightarrow> fresh_enough fromisoformat now_utc a = Returns True)
           \<and> (classified_at a = None \<or> classified_at a = Some []
                \<longrightarrow> fresh_enough fromisoformat now_utc a = Returns True)
           \<and> (\<forall>c. classified_at a = Some c \<longrightarrow> fromisoformat c = ParseFails
                \<longrightarrow> fresh_enough fromisoformat now_utc a = Returns True)
           \<and> (\<forall>c t. too_many_followers a \<noteq> Some True \<longrightarrow> classified_at a = Some c \<longrightarrow> c \<noteq> []
                \<longrightarrow> fromisoformat c = Aware t
                \<longrightarrow> fresh_enough fromisoformat now_utc a
                      = Returns (now_utc - t < 30 * microseconds_per_day)))"
proof -
  define loaded_rel where "loaded_rel = fst (load_into (stored_accounts rf) [])"
  define loaded_irr where "loaded_irr = fst (load_into (stored_accounts irf) [])"
  have rel_ok: "load_into (stored_accounts rf) [] = (loaded_rel, Returns ())"
    using load_into_returns [of "stored_accounts rf" "[]"] assms(3)
    by (simp add: loaded_rel_def prod_eq_iff)
  have irr_ok: "load_into (stored_accounts irf) [] = (loaded_irr, Returns ())"
    using load_into_returns [of "stored_accounts irf" "[]"] assms(3)
    by (simp add: loaded_irr_def prod_eq_iff)
  have dist: "distinct (dict_keys loaded_irr)"
    unfolding loaded_irr_def by (rule load_into_distinct) (simp add: dict_keys_def)
  have "set (dict_values loaded_irr) \<subseteq> set (stored_accounts irf)"
    using load_into_values [of "stored_accounts irf" "[]"]
    by (simp add: loaded_irr_def dict_values_def)
  with assms(4) have
    "\<forall>a\<in>set (dict_values loaded_irr). \<exists>b. fresh_enough fromisoformat now_utc a = Returns b"
    using fresh_enough_returns by blast
  from age_out_returns [OF this, of "[]"] obtain fr where
    fr: "age_out fromisoformat now_utc loaded_irr [] = Returns fr" by blast
  define s' where "s' = \<lparr> relevant_accounts = loaded_rel, irrelevant_accounts = fr,
     relevant_file = rf, irrelevant_file = irf \<rparr>"
  have run: "load_existing_accounts fromisoformat utcnow (init_state rf irf) = (s', Returns ())"
    using assms(1,2,5) rel_ok irr_ok fr
    by (cases rf; cases irf)
       (simp_all add: load_existing_accounts_def init_state_def stored_accounts_def s'_def Let_def)
  have look: "\<forall>uid. dict_get (irrelevant_accounts s') uid =
                (case dict_get loaded_irr uid of
                   None \<Rightarrow> None
                 | Some a \<Rightarrow> if fresh_enough fromisoformat now_utc a = Returns True
                             then Some a else None)"
    using age_out_lookup [OF dist fr] by (simp add: s'_def split: option.splits)
  have store: "\<exists>s'. load_existing_accounts fromisoformat utcnow (init_state rf irf) = (s', Returns ())
          \<and> relevant_accounts s' = fst (load_into (stored_accounts rf) [])
          \<and> relevant_file s' = rf \<and> irrelevant_file s' = irf
          \<and> (\<forall>uid. dict_get (irrelevant_accounts s') uid =
                (case dict_get (fst (load_into (stored_accounts irf) [])) uid of
                   None \<Rightarrow> None
                 | Some a \<Rightarrow> if fresh_enough fromisoformat now_utc a = Returns True
                             then Some a else None))"
    using run look by (intro exI [of _ s']) (simp add: s'_def loaded_rel_def loaded_irr_def)
  have rule: "too_many_followers a = Some True
                \<longrightarrow> fresh_enough fromisoformat now_utc a = Returns True"
    "classified_at a = None \<or> classified_at a = Some []
                \<longrightarrow> fresh_enough fromisoformat now_utc a = Returns True"
    "\<forall>c. classified_at a = Some c \<longrightarrow> fromisoformat c = ParseFails
                \<longrightarrow> fresh_enough fromisoformat now_utc a = Returns True"
    "\<forall>c t. too_many_followers a \<noteq> Some True \<longrightarrow> classified_at a = Some c \<longrightarrow> c \<noteq> []
                \<longrightarrow> fromisoformat c = Aware t
                \<longrightarrow> fresh_enough fromisoformat now_utc a
                      = Returns (now_utc - t < 30 * microseconds_per_day)" for a
    using fresh_enough_aware [of a _ fromisoformat _ now_utc]
    by (auto simp: fresh_enough_def)
  from store rule show ?thesis by blast
qed

theorem decay_on_load_witness:
  "(Missing :: account list json_file) \<noteq> Corrupt \<and> Content decay_accounts \<noteq> Corrupt
   \<and> (\<exists>s'. load_existing_accounts decay_table 1702592000000000
               (init_state Missing (Content decay_accounts)) = (s', Returns ())
        \<and> relevant_accounts s' = []
        \<and> dict_get (irrelevant_accounts s') ''31'' = None
        \<and> dict_get (irrelevant_accounts s') ''29''
            = Some (stamped (user_object ''29'' 100 500) ''2023-11-15T22:13:20+00:00'')
        \<and> dict_get (irrelevant_accounts s') ''100''
            = Some (stamped ((user_object ''100'' 5000 500)\<lparr>too_many_followers := Some True\<rparr>)
                      ''2023-09-05T22:13:20+00:00'')
        \<and> dict_get (irrelevant_accounts s') ''bad''
            = Some (stamped (user_object ''bad'' 100 500) ''yesterday'')
        \<and> dict_get (irrelevant_accounts s') ''none'' = Some (user_object ''none'' 100 500))"
proof -
  let ?irf = "Content decay_accounts"
  have h1: "(Missing :: account list json_file) \<noteq> Corrupt" by simp
  have h2: "?irf \<noteq> Corrupt" by simp
  have h3: "\<forall>a\<in>set (stored_accounts Missing) \<union> set (stored_accounts ?irf). id_key a \<noteq> None"
    by (simp add: stored_accounts_def decay_accounts_def stamped_def user_object_def)
  have h4: "\<forall>a\<in>set (stored_accounts ?irf). \<forall>c t. classified_at a = Some c \<longrightarrow> decay_table c \<noteq> Naive t"
    by (simp add: stored_accounts_def decay_accounts_def stamped_def user_object_def
        decay_table_def iso_table_def)
  have h5: "(1702592000000000 :: int) = 1702592000000000 - 1702592000000000 mod 1000000"
    by simp
  from decay_on_load [OF h1 h2 h3 h4 h5]
  obtain s' where run: "load_existing_accounts decay_table 1702592000000000
               (init_state Missing ?irf) = (s', Returns ())"
    and rel: "relevant_accounts s' = fst (load_into (stored_accounts Missing) [])"
    and look: "\<And>uid. dict_get (irrelevant_accounts s') uid =
                (case dict_get (fst (load_into (stored_accounts ?irf) [])) uid of
                   None \<Rightarrow> None
                 | Some a \<Rightarrow> if fresh_enough decay_table 1702592000000000 a = Returns True
                             then Some a else None)"
    by blast
  have loaded: "fst (load_into (stored_accounts ?irf) []) =
      [(''31'', stamped (user_object ''31'' 100 500) ''2023-11-13T22:13:20+00:00''),
       (''29'', stamped (user_object ''29'' 100 500) ''2023-11-15T22:13:20+00:00''),
       (''100'', stamped ((user_object ''100'' 5000 500)\<lparr>too_many_followers := Some True\<rparr>)
                  ''2023-09-05T22:13:20+00:00''),
       (''bad'', stamped (user_object ''bad'' 100 500) ''yesterday''),
       (''none'', user_object ''none'' 100 500)]"
    by (simp add: stored_accounts_def decay_accounts_def stamped_def user_object_def)
  have f31: "fresh_enough decay_table 1702592000000000
               (stamped (user_object ''31'' 100 500) ''2023-11-13T22:13:20+00:00'') = Returns False"
    by (simp add: fresh_enough_def stamped_def user_object_def decay_table_def iso_table_def
        timedelta_days_def microseconds_per_day_def)
  have f29: "fresh_enough decay_table 1702592000000000
               (stamped (user_object ''29'' 100 500) ''2023-11-15T22:13:20+00:00'') = Returns True"
    by (simp add: fresh_enough_def stamped_def user_object_def decay_table_def iso_table_def
        timedelta_days_def microseconds_per_day_def)
  have f100: "fresh_enough decay_table 1702592000000000
               (stamped ((user_object ''100'' 5000 500)\<lparr>too_many_followers := Some True\<rparr>)
                  ''2023-09-05T22:13:20+00:00'') = Returns True"
    by (simp add: fresh_enough_def stamped_def user_object_def)
  have fbad: "fresh_enough decay_table 1702592000000000
               (stamped (user_object ''bad'' 100 500) ''yesterday'') = Returns True"
    by (simp add: fresh_enough_def stamped_def user_object_def decay_table_def iso_table_def)
  have fnone: "fresh_enough decay_table 1702592000000000 (user_object ''none'' 100 500) = Returns True"
    by (simp add: fresh_enough_def user_object_def)
  have "relevant_accounts s' = []"
    using rel by (simp add: stored_accounts_def)
  moreover have "dict_get (irrelevant_accounts s') ''31'' = None"
    by (simp add: look loaded f31)
  moreover have "dict_get (irrelevant_accounts s') ''29''
            = Some (stamped (user_object ''29'' 100 500) ''2023-11-15T22:13:20+00:00'')"
    by (simp add: look loaded f29)
  moreover have "dict_get (irrelevant_accounts s') ''100''
            = Some (stamped ((user_object ''100'' 5000 500)\<lparr>too_many_followers := Some True\<rparr>)
                      ''2023-09-05T22:13:20+00:00'')"
    by (simp add: look loaded f100)
  moreover have "dict_get (irrelevant_accounts s') ''bad''
            = Some (stamped (user_object ''bad'' 100 500) ''yesterday'')"
    by (simp add: look loaded fbad)
  moreover have "dict_get (irrelevant_accounts s') ''none'' = Some (user_object ''none'' 100 500)"
    by (simp add: look loaded fnone)
  ultimately show ?thesis using run h1 h2 by blast
qed

section \<open>The tweet store: merging by id\<close>

lemma unseen_tweets_seen:
  "set (map tweet_id tweets) \<subseteq> set (map tweet_id existing) \<Longrightarrow> unseen_tweets existing tweets = []"
  by (auto simp: unseen_tweets_def filter_empty_conv)

lemma unseen_tweets_again:
  "unseen_tweets old (old @ unseen_tweets old tweets) = unseen_tweets old tweets"
  by (induction tweets) (auto simp: unseen_tweets_def filter_empty_conv)

lemma merge_into_distinct:
  "distinct (dict_keys existing_data) \<Longrightarrow> distinct (dict_keys (merge_into items existing_data))"
  by (induction items existing_data rule: merge_into.induct)
     (auto simp: distinct_dict_set split: option.splits)

lemma merge_into_lookup:
  assumes "distinct (dict_keys items)"
  shows "dict_get (merge_into items existing_data) u =
           (case dict_get items u of
              None \<Rightarrow> dict_get existing_data u
            | Some tweets \<Rightarrow>
                (case dict_get existing_data u of
                   None \<Rightarrow> Some tweets
                 | Some old \<Rightarrow> Some (old @ unseen_tweets old tweets)))"
  using assms
proof (induction items arbitrary: existing_data)
  case Nil
  then show ?case by simp
next
  case (Cons p items)
  obtain k tweets where p: "p = (k, tweets)" by (cases p)
  have d: "distinct (dict_keys items)" and notin: "k \<notin> set (dict_keys items)"
    using Cons.prems by (simp_all add: p dict_keys_def)
  define ex' where "ex' = (case dict_get existing_data k of
        None \<Rightarrow> dict_set k tweets existing_data
      | Some old \<Rightarrow> dict_set k (old @ unseen_tweets old tweets) existing_data)"
  have step: "merge_into (p # items) existing_data = merge_into items ex'"
    by (simp add: p ex'_def split: option.splits)
  note ih = Cons.IH [OF d, of ex']
  show ?case
  proof (cases "u = k")
    case True
    have "dict_get items u = None"
      using notin True by (simp add: dict_get_None_keys)
    with ih have "dict_get (merge_into items ex') u = dict_get ex' u" by simp
    then show ?thesis
      unfolding step using True
      by (simp add: p ex'_def dict_get_set_same split: option.splits)
  next
    case False
    have "dict_get ex' u = dict_get existing_data u"
      using False by (simp add: ex'_def dict_get_set_other split: option.splits)
    with ih show ?thesis
      unfolding step using False by (simp add: p split: option.splits)
  qed
qed

lemma cleaned_data_lookup:
  assumes "distinct (dict_keys d)"
  shows "dict_get (cleaned_data d) u =
           (case dict_get d u of None \<Rightarrow> None | Some tweets \<Rightarrow> if tweets = [] then None else Some tweets)"
  using assms
proof (induction d)
  case Nil
  then show ?case by (simp add: cleaned_data_def)
next
  case (Cons p d)
  obtain k tweets where p: "p = (k, tweets)" by (cases p)
  have d: "distinct (dict_keys d)" and notin: "k \<notin> set (dict_keys d)"
    using Cons.prems by (simp_all add: p dict_keys_def)
  have ih: "dict_get (cleaned_data d) u =
           (case dict_get d u of None \<Rightarrow> None | Some tweets \<Rightarrow> if tweets = [] then None else Some tweets)"
    by (rule Cons.IH [OF d])
  have none: "dict_get d k = None"
    using notin by (simp add: dict_get_None_keys)
  have unfold: "cleaned_data ((k, tweets) # d)
                  = (if tweets \<noteq> [] then (k, tweets) # cleaned_data d else cleaned_data d)"
    by (simp add: cleaned_data_def)
  show ?case
  proof (cases "u = k")
    case True
    then show ?thesis using ih none unfolding p unfold by (cases "tweets = []") simp_all
  next
    case False
    then show ?thesis using ih unfolding p unfold by (cases "tweets = []") simp_all
  qed
qed

text \<open>
  C8. One run of \<open>process_account\<close> on an account with an id, a timestamp that formats and
  the fetched batch \<open>fetched env\<close>. In memory the collection of the account becomes the old
  posts followed by the fetched posts whose ids were not among them, in the order fetched;
  no other account changes; a batch of ids already stored changes nothing. On disk, after
  a successful write, the collection of the account is what the file held followed by the
  posts of the in-memory collection whose ids the file did not hold; it equals the
  in-memory collection when file and memory agreed on the account before.
\<close>

theorem merge_appends_unseen_posts:
  assumes "id_key account = Some uid" and "uid \<noteq> []"
    and "name = account_username account"
    and "format_time_rfc3339 env (since_time env st name) = Returns since"
    and "existing = (case dict_get (all_tweets st) name of None \<Rightarrow> [] | Some ts \<Rightarrow> ts)"
    and "merged = existing @ unseen_tweets existing (fetched env)"
    and "process_account env account st = (st', r)"
  shows "dict_get (all_tweets st') name
           = (if fetched env = [] then dict_get (all_tweets st) name else Some merged)
     \<and> (\<forall>other. other \<noteq> name \<longrightarrow> dict_get (all_tweets st') other = dict_get (all_tweets st) other)
     \<and> (set (map tweet_id (fetched env)) \<subseteq> set (map tweet_id existing)
          \<longrightarrow> all_tweets st' = all_tweets st)
     \<and> (fetched env \<noteq> [] \<longrightarrow> tweets_disk env = WriteOk \<longrightarrow> all_tweets_file st \<noteq> Corrupt
          \<longrightarrow> distinct (dict_keys (all_tweets st))
          \<longrightarrow> distinct (dict_keys (stored_tweets (all_tweets_file st)))
          \<longrightarrow> r = Returns ()
              \<and> (\<exists>f'. all_tweets_file st' = Content f'
                   \<and> dict_get f' name =
                       Some (case dict_get (stored_tweets (all_tweets_file st)) name of
                               None \<Rightarrow> merged
                             | Some old \<Rightarrow> old @ unseen_tweets old merged)
                   \<and> (dict_get (stored_tweets (all_tweets_file st)) name = dict_get (all_tweets st) name
                        \<longrightarrow> dict_get f' name = dict_get (all_tweets st') name)))"
proof -
  define st1 where "st1 = st\<lparr>all_tweets := dict_set name merged (all_tweets st)\<rparr>"
  have run: "process_account env account st
               = (if fetched env \<noteq> [] then save_all_tweets (tweets_disk env) st1 else (st, Returns ()))"
    using assms(1-6)
    by (simp add: process_account_def Let_def st1_def)
  have mem_saved: "all_tweets (fst (save_all_tweets w st1)) = all_tweets st1" for w
    by (cases w; cases "all_tweets_file st1")
       (simp_all add: save_all_tweets_def write_json_def)
  have mem: "all_tweets st' = (if fetched env \<noteq> [] then all_tweets st1 else all_tweets st)"
    using assms(7) run mem_saved [of "tweets_disk env"] by (auto split: if_splits)
  have A: "dict_get (all_tweets st') name
           = (if fetched env = [] then dict_get (all_tweets st) name else Some merged)"
    by (simp add: mem st1_def dict_get_set_same)
  have B: "\<forall>other. other \<noteq> name \<longrightarrow> dict_get (all_tweets st') other = dict_get (all_tweets st) other"
    by (simp add: mem st1_def dict_get_set_other)
  have C: "all_tweets st' = all_tweets st"
    if sub: "set (map tweet_id (fetched env)) \<subseteq> set (map tweet_id existing)"
  proof (cases "fetched env = []")
    case True
    then show ?thesis by (simp add: mem)
  next
    case False
    have m: "merged = existing"
      using unseen_tweets_seen [OF sub] assms(6) by simp
    have "existing \<noteq> []"
      using sub False by auto
    then obtain ts where ts: "dict_get (all_tweets st) name = Some ts" and e: "existing = ts"
      using assms(5) by (cases "dict_get (all_tweets st) name") simp_all
    have "dict_set name merged (all_tweets st) = all_tweets st"
      using ts m e by (simp add: dict_set_same_value)
    then show ?thesis by (simp add: mem st1_def)
  qed
  have D: "r = Returns ()
              \<and> (\<exists>f'. all_tweets_file st' = Content f'
                   \<and> dict_get f' name =
                       Some (case dict_get (stored_tweets (all_tweets_file st)) name of
                               None \<Rightarrow> merged
                             | Some old \<Rightarrow> old @ unseen_tweets old merged)
                   \<and> (dict_get (stored_tweets (all_tweets_file st)) name = dict_get (all_tweets st) name
                        \<longrightarrow> dict_get f' name = dict_get (all_tweets st') name))"
    if ne: "fetched env \<noteq> []" and w: "tweets_disk env = WriteOk"
      and nc: "all_tweets_file st \<noteq> Corrupt"
      and dm: "distinct (dict_keys (all_tweets st))"
      and df: "distinct (dict_keys (stored_tweets (all_tweets_file st)))"
  proof -
    define ex where "ex = stored_tweets (all_tweets_file st)"
    define f' where "f' = cleaned_data (merge_into (all_tweets st1) ex)"
    have sv: "save_all_tweets WriteOk st1 = (st1\<lparr>all_tweets_file := Content f'\<rparr>, Returns ())"
      using nc
      by (cases "all_tweets_file st")
         (simp_all add: save_all_tweets_def write_json_def st1_def f'_def ex_def stored_tweets_def)
    have res: "st' = st1\<lparr>all_tweets_file := Content f'\<rparr>" "r = Returns ()"
      using assms(7) run ne w sv by simp_all
    have d1: "distinct (dict_keys (all_tweets st1))"
      using dm by (simp add: st1_def distinct_dict_set)
    have d2: "distinct (dict_keys (merge_into (all_tweets st1) ex))"
      using df by (simp add: ex_def merge_into_distinct)
    have mne: "merged \<noteq> []"
    proof (cases "existing = []")
      case True
      then show ?thesis using ne assms(6) by (simp add: unseen_tweets_def)
    next
      case False
      then show ?thesis using assms(6) by simp
    qed
    have g: "dict_get (all_tweets st1) name = Some merged"
      by (simp add: st1_def dict_get_set_same)
    have l: "dict_get (merge_into (all_tweets st1) ex) name =
               Some (case dict_get ex name of None \<Rightarrow> merged | Some old \<Rightarrow> old @ unseen_tweets old merged)"
      by (simp add: merge_into_lookup [OF d1] g split: option.splits)
    have fl: "dict_get f' name =
               Some (case dict_get ex name of None \<Rightarrow> merged | Some old \<Rightarrow> old @ unseen_tweets old merged)"
      unfolding f'_def using mne
      by (simp add: cleaned_data_lookup [OF d2] l unseen_tweets_def split: option.splits)
    have sync: "dict_get f' name = dict_get (all_tweets st') name"
      if eq: "dict_get ex name = dict_get (all_tweets st) name"
    proof (cases "dict_get (all_tweets st) name")
      case None
      then show ?thesis using eq fl g res(1) by simp
    next
      case (Some ts)
      then have e: "existing = ts" using assms(5) by simp
      have "ts @ unseen_tweets ts merged = merged"
        using unseen_tweets_again [of ts "fetched env"] assms(6) e by simp
      then show ?thesis using eq fl g res(1) Some by simp
    qed
    show ?thesis
      using res fl sync by (auto simp: ex_def)
  qed
  from A B C D show ?thesis by blast
qed

theorem merge_appends_unseen_posts_witness:
  "id_key alice = Some ''7'' \<and> ''7'' \<noteq> [] \<and> account_username alice = ''alice''
   \<and> process_account
        (crawl_world [post_with ''1'' ''2025-02-27T10:00:00Z'', post_with ''2'' ''2025-02-28T09:00:00Z''] WriteOk)
        alice alice_store
      = (\<lparr> all_tweets = [(''alice'', [post_with ''1'' ''2025-02-27T10:00:00Z'',
                                          post_with ''2'' ''2025-02-28T09:00:00Z''])],
            all_tweets_file = Content [(''alice'', [post_with ''1'' ''2025-02-27T10:00:00Z'',
                                          post_with ''2'' ''2025-02-28T09:00:00Z''])] \<rparr>,
         Returns ())
   \<and> dict_get (all_tweets (fst (process_account
        (crawl_world [post_with ''1'' ''2025-02-27T10:00:00Z'', post_with ''2'' ''2025-02-28T09:00:00Z''] WriteOk)
        alice alice_store))) ''alice''
      = Some [post_with ''1'' ''2025-02-27T10:00:00Z'', post_with ''2'' ''2025-02-28T09:00:00Z'']"
proof -
  let ?env = "crawl_world [post_with ''1'' ''2025-02-27T10:00:00Z'',
                           post_with ''2'' ''2025-02-28T09:00:00Z''] WriteOk"
  let ?after = "\<lparr> all_tweets = [(''alice'', [post_with ''1'' ''2025-02-27T10:00:00Z'',
                                          post_with ''2'' ''2025-02-28T09:00:00Z''])],
            all_tweets_file = Content [(''alice'', [post_with ''1'' ''2025-02-27T10:00:00Z'',
                                          post_with ''2'' ''2025-02-28T09:00:00Z''])] \<rparr>"
  have h1: "id_key alice = Some ''7''"
    by (simp add: alice_def user_object_def)
  have h2: "''7'' \<noteq> []" by simp
  have h3: "''alice'' = account_username alice"
    by (simp add: alice_def account_username_def)
  have h4: "format_time_rfc3339 ?env (since_time ?env alice_store ''alice'')
              = Returns (since_time ?env alice_store ''alice'')"
    by (simp add: crawl_world_def as_is_def)
  have h5: "[post_with ''1'' ''2025-02-27T10:00:00Z'']
              = (case dict_get (all_tweets alice_store) ''alice'' of None \<Rightarrow> [] | Some ts \<Rightarrow> ts)"
    by (simp add: alice_store_def)
  have h6: "[post_with ''1'' ''2025-02-27T10:00:00Z'', post_with ''2'' ''2025-02-28T09:00:00Z'']
              = [post_with ''1'' ''2025-02-27T10:00:00Z'']
                @ unseen_tweets [post_with ''1'' ''2025-02-27T10:00:00Z''] (fetched ?env)"
    by (simp add: unseen_tweets_def crawl_world_def post_with_def)
  have h7: "process_account ?env alice alice_store = (?after, Returns ())"
    by (simp add: process_account_def account_username_def since_time_def
        get_latest_collected_time_def crawl_world_def as_is_def unseen_tweets_def post_with_def
        save_all_tweets_def write_json_def cleaned_data_def Let_def alice_def alice_store_def
        user_object_def)
  have ne: "fetched ?env \<noteq> []"
    by (simp add: crawl_world_def)
  from merge_appends_unseen_posts [OF h1 h2 h3 h4 h5 h6 h7] ne
  have "dict_get (all_tweets ?after) ''alice''
          = Some [post_with ''1'' ''2025-02-27T10:00:00Z'', post_with ''2'' ''2025-02-28T09:00:00Z'']"
    by simp
  then show ?thesis using h1 h2 h3 h7 by simp
qed

section \<open>Saving a classification: the two stores\<close>

text \<open>
  What \<open>save_account\<close> does to the dictionaries, whatever the disk does: the account is in
  the dictionary of its new classification and not in the other one, and the membership
  of every other id is as before.
\<close>

lemma save_account_memory:
  assumes "id_key u = Some i" and "save_account cfg now w relevant (s, u) = ((s', u'), r)"
  shows "dict_has (relevant_accounts s') i = relevant
     \<and> dict_has (irrelevant_accounts s') i = (\<not> relevant)
     \<and> (\<forall>j. j \<noteq> i \<longrightarrow> dict_get (relevant_accounts s') j = dict_get (relevant_accounts s) j
                       \<and> dict_get (irrelevant_accounts s') j = dict_get (irrelevant_accounts s) j)"
proof (cases relevant)
  case True
  with assms have "relevant_accounts s'
        = dict_set i (u\<lparr>classified_at := Some now, too_many_followers := None\<rparr>) (relevant_accounts s)"
    and "irrelevant_accounts s' = dict_del i (irrelevant_accounts s)"
    by (auto simp add: save_account_def save_account_body_def Let_def split_beta)
  with True show ?thesis
    by (simp add: dict_has_get dict_get_set_same dict_get_del_same dict_get_set_other
        dict_get_del_other)
next
  case False
  with assms have "\<exists>u2. irrelevant_accounts s' = dict_set i u2 (irrelevant_accounts s)"
    and "relevant_accounts s' = dict_del i (relevant_accounts s)"
    by (auto simp add: save_account_def save_account_body_def Let_def split_beta)
  with False show ?thesis
    by (auto simp add: dict_has_get dict_get_set_same dict_get_del_same dict_get_set_other
        dict_get_del_other)
qed

text \<open>
  What \<open>save_account\<close> does to the account and, when the write goes through, to the files:
  the time stamp is set; a promotion removes the flag and rewrites the relevant file from
  the relevant dictionary; a demotion sets the flag when the followers reach the threshold,
  leaves it as it was otherwise, and rewrites the irrelevant file from the irrelevant
  dictionary. The file of the other store is not touched.
\<close>

lemma save_account_written:
  assumes "id_key u = Some i" and "save_account cfg now WriteOk relevant (s, u) = ((s', u'), r)"
  shows "classified_at u' = Some now
     \<and> (relevant \<longrightarrow> too_many_followers u' = None
           \<and> relevant_file s' = Content (dict_values (relevant_accounts s'))
           \<and> irrelevant_file s' = irrelevant_file s)
     \<and> (\<not> relevant \<longrightarrow>
           too_many_followers u' = (if followers_of u \<ge> max_followers cfg then Some True
                                    else too_many_followers u)
           \<and> irrelevant_file s' = Content (dict_values (irrelevant_accounts s'))
           \<and> relevant_file s' = relevant_file s)"
proof (cases relevant)
  case True
  with assms show ?thesis
    by (auto simp add: save_account_def save_account_body_def write_json_def try_except_def Let_def)
next
  case False
  with assms show ?thesis
    by (cases "followers_of u \<ge> max_followers cfg")
       (auto simp add: save_account_def save_account_body_def write_json_def try_except_def
          Let_def followers_of_def)
qed

text \<open>
  C3. The claim: a promotion and a demotion each persist both collections to their files.
  \<open>save_account\<close> writes the file of the destination store only. Promoting an account
  that the irrelevant store holds removes it from the irrelevant dictionary and leaves the
  irrelevant file listing it; demoting an account that the relevant store holds leaves the
  relevant file listing it.
\<close>

theorem save_account_leaves_other_file_stale:
  "save_account default_config ''2023-12-14T22:13:20+00:00'' WriteOk True
     (\<lparr> relevant_accounts = [],
         irrelevant_accounts =
           [(''7'', stamped (user_object ''7'' 100 500) ''2023-11-15T22:13:20+00:00'')],
         relevant_file = Content [],
         irrelevant_file =
           Content [stamped (user_object ''7'' 100 500) ''2023-11-15T22:13:20+00:00''] \<rparr>,
      user_object ''7'' 100 500)
   = ((\<lparr> relevant_accounts =
            [(''7'', stamped (user_object ''7'' 100 500) ''2023-12-14T22:13:20+00:00'')],
          irrelevant_accounts = [],
          relevant_file =
            Content [stamped (user_object ''7'' 100 500) ''2023-12-14T22:13:20+00:00''],
          irrelevant_file =
            Content [stamped (user_object ''7'' 100 500) ''2023-11-15T22:13:20+00:00''] \<rparr>,
       stamped (user_object ''7'' 100 500) ''2023-12-14T22:13:20+00:00''),
      Returns (SavedRelevant ''7''))
   \<and> save_account default_config ''2023-12-14T22:13:20+00:00'' WriteOk False
     (\<lparr> relevant_accounts =
           [(''7'', stamped (user_object ''7'' 100 500) ''2023-11-15T22:13:20+00:00'')],
         irrelevant_accounts = [],
         relevant_file =
           Content [stamped (user_object ''7'' 100 500) ''2023-11-15T22:13:20+00:00''],
         irrelevant_file = Content [] \<rparr>,
      user_object ''7'' 100 500)
   = ((\<lparr> relevant_accounts = [],
          irrelevant_accounts =
            [(''7'', stamped (user_object ''7'' 100 500) ''2023-12-14T22:13:20+00:00'')],
          relevant_file =
            Content [stamped (user_object ''7'' 100 500) ''2023-11-15T22:13:20+00:00''],
          irrelevant_file =
            Content [stamped (user_object ''7'' 100 500) ''2023-12-14T22:13:20+00:00''] \<rparr>,
       stamped (user_object ''7'' 100 500) ''2023-12-14T22:13:20+00:00''),
      Returns (SavedIrrelevant ''7''))"
  by (simp add: save_account_def save_account_body_def write_json_def try_except_def Let_def
      default_config_def user_object_def stamped_def dict_values_def followers_of_def)

section \<open>The re-evaluation scripts and the two files\<close>

text \<open>
  The purge moves accounts between the files without duplicating an id: every account of
  the relevant file ends in exactly one of the two lists it builds.
\<close>

lemma purge_loop_ids:
  assumes "purge_loop env tw accounts remaining purged = Returns (remaining', purged')"
  shows "set (map id_key remaining') \<union> set (map id_key purged')
           = set (map id_key remaining) \<union> set (map id_key purged) \<union> set (map id_key accounts)
     \<and> (distinct (map id_key (remaining @ purged @ accounts))
          \<longrightarrow> distinct (map id_key (remaining' @ purged')))"
  using assms
proof (induction accounts arbitrary: remaining purged)
  case Nil
  then show ?case by auto
next
  case (Cons a accounts)
  from Cons.prems obtain rem1 pur1 where
    step: "purge_loop env tw accounts rem1 pur1 = Returns (remaining', purged')"
    and shape: "(rem1 = remaining \<and> (\<exists>b. pur1 = purged @ [b] \<and> id_key b = id_key a))
                \<or> (pur1 = purged \<and> (\<exists>b. rem1 = remaining @ [b] \<and> id_key b = id_key a))"
    by (auto simp: Let_def split: option.splits outcome.splits if_splits)
  from Cons.IH [OF step] have
    ih1: "set (map id_key remaining') \<union> set (map id_key purged')
           = set (map id_key rem1) \<union> set (map id_key pur1) \<union> set (map id_key accounts)"
    and ih2: "distinct (map id_key (rem1 @ pur1 @ accounts))
          \<longrightarrow> distinct (map id_key (remaining' @ purged'))"
    by simp_all
  have same_set: "set (map id_key rem1) \<union> set (map id_key pur1) \<union> set (map id_key accounts)
                 = set (map id_key remaining) \<union> set (map id_key purged)
                   \<union> set (map id_key (a # accounts))"
    using shape by auto
  have move: "distinct (R @ [x] @ P @ A) = distinct (R @ P @ x # A)"
    for R P A :: "string option list" and x
    by auto
  have same_distinct: "distinct (map id_key (remaining @ purged @ a # accounts))
                    \<longrightarrow> distinct (map id_key (rem1 @ pur1 @ accounts))"
  proof
    assume d: "distinct (map id_key (remaining @ purged @ a # accounts))"
    then have d': "distinct (map id_key remaining @ map id_key purged @ id_key a # map id_key accounts)"
      by (simp only: map_append list.map)
    from shape show "distinct (map id_key (rem1 @ pur1 @ accounts))"
    proof
      assume "rem1 = remaining \<and> (\<exists>b. pur1 = purged @ [b] \<and> id_key b = id_key a)"
      then have "map id_key (rem1 @ pur1 @ accounts)
                   = map id_key remaining @ map id_key purged @ id_key a # map id_key accounts"
        by auto
      with d' show ?thesis by (simp only:)
    next
      assume "pur1 = purged \<and> (\<exists>b. rem1 = remaining @ [b] \<and> id_key b = id_key a)"
      then have "map id_key (rem1 @ pur1 @ accounts)
                   = map id_key remaining @ [id_key a] @ map id_key purged @ map id_key accounts"
        by auto
      moreover have "distinct (map id_key remaining @ [id_key a] @ map id_key purged @ map id_key accounts)"
        using d' by (simp only: move)
      ultimately show ?thesis by (simp only:)
    qed
  qed
  show ?case
    using ih1 ih2 same_set same_distinct by simp
qed

lemma purge_keeps_files_exclusive:
  assumes "purge_irrelevant_accounts env (Content relevant, Content irrelevant, tf)
             = ((rf', irf'), Returns ())"
    and "distinct (map id_key relevant)"
    and "set (map id_key relevant) \<inter> set (map id_key irrelevant) = {}"
  shows "\<exists>remaining purged. rf' = Content remaining \<and> irf' = Content (irrelevant @ purged)
           \<and> set (map id_key remaining) \<inter> set (map id_key (irrelevant @ purged)) = {}"
proof -
  from assms(1) obtain remaining purged where
    loop: "purge_loop env (case tf of Content d \<Rightarrow> Some d | _ \<Rightarrow> None) relevant [] []
             = Returns (remaining, purged)"
    and files: "rf' = Content remaining" "irf' = Content (irrelevant @ purged)"
    by (cases "relevant_disk env"; cases "irrelevant_disk env")
       (auto simp: purge_irrelevant_accounts_def load_json_def write_json_def Let_def
          split: if_splits outcome.splits prod.splits)
  from purge_loop_ids [OF loop] assms(2) have
    ids: "set (map id_key remaining) \<union> set (map id_key purged) = set (map id_key relevant)"
    and dist: "distinct (map id_key (remaining @ purged))"
    by simp_all
  from dist have "set (map id_key remaining) \<inter> set (map id_key purged) = {}"
    by auto
  moreover from ids assms(3) have "set (map id_key remaining) \<inter> set (map id_key irrelevant) = {}"
    by auto
  ultimately have "set (map id_key remaining) \<inter> set (map id_key (irrelevant @ purged)) = {}"
    by auto
  with files show ?thesis by blast
qed

text \<open>\<^verbatim>\<open>reclassify_large_accounts\<close>, the sibling of the demotion, rewrites both files.\<close>

lemma reclassify_writes_both_files:
  assumes "load_quietly rf \<noteq> []" and "relevant_disk env = WriteOk"
    and "irrelevant_disk env = WriteOk"
  shows "reclassify_large_accounts env (rf, irf)
           = ((Content (dict_values (fst (reclassify_loop env (load_quietly rf) [] (load_quietly irf)))),
               Content (dict_values (snd (reclassify_loop env (load_quietly rf) [] (load_quietly irf))))),
              Returns ())"
  using assms
  by (simp add: reclassify_large_accounts_def write_json_def Let_def split_beta)

text \<open>
  C1. The claim: after every transition the account is in at most one of the two stores.
  In the dictionaries of one classifier that holds (\<open>save_account_memory\<close>), and the purge
  keeps two exclusive files exclusive (\<open>purge_keeps_files_exclusive\<close>). On the files, which
  are the stores the transitions share, \<open>save_account\<close> breaks it: starting with no files,
  saving account 7 as irrelevant and then as relevant leaves both files listing it; a purge
  one day later that keeps the account leaves both files listing it; and the next
  \<open>load_existing_accounts\<close>, 29 days after the first save, puts it into both dictionaries.
\<close>

theorem account_in_both_stores_after_promotion:
  "fst (save_account default_config ''2023-12-14T22:13:20+00:00'' WriteOk True
     (fst (fst (save_account default_config ''2023-11-15T22:13:20+00:00'' WriteOk False
                  (init_state Missing Missing, alice))),
      alice))
   = (\<lparr> relevant_accounts = [(''7'', stamped alice ''2023-12-14T22:13:20+00:00'')],
        irrelevant_accounts = [],
        relevant_file = Content [stamped alice ''2023-12-14T22:13:20+00:00''],
        irrelevant_file = Content [stamped alice ''2023-11-15T22:13:20+00:00''] \<rparr>,
      stamped alice ''2023-12-14T22:13:20+00:00'')
   \<and> purge_irrelevant_accounts purge_world
       (Content [stamped alice ''2023-12-14T22:13:20+00:00''],
        Content [stamped alice ''2023-11-15T22:13:20+00:00''],
        Content [(''alice'', [post_with ''1'' ''2023-12-10T10:00:00Z''])])
     = ((Content [(stamped alice ''2023-12-14T22:13:20+00:00'')
                    \<lparr>last_relevant_tweet_count := Some 1,
                      last_checked_at := Some ''2023-12-15T22:13:20+00:00''\<rparr>],
         Content [stamped alice ''2023-11-15T22:13:20+00:00'']),
        Returns ())
   \<and> load_existing_accounts decay_table 1702592000000000
       (init_state (Content [stamped alice ''2023-12-14T22:13:20+00:00''])
                   (Content [stamped alice ''2023-11-15T22:13:20+00:00'']))
     = (\<lparr> relevant_accounts = [(''7'', stamped alice ''2023-12-14T22:13:20+00:00'')],
          irrelevant_accounts = [(''7'', stamped alice ''2023-11-15T22:13:20+00:00'')],
          relevant_file = Content [stamped alice ''2023-12-14T22:13:20+00:00''],
          irrelevant_file = Content [stamped alice ''2023-11-15T22:13:20+00:00''] \<rparr>,
        Returns ())"
proof -
  have first: "fst (fst (save_account default_config ''2023-11-15T22:13:20+00:00'' WriteOk False
                  (init_state Missing Missing, alice)))
      = \<lparr> relevant_accounts = [],
          irrelevant_accounts = [(''7'', stamped alice ''2023-11-15T22:13:20+00:00'')],
          relevant_file = Missing,
          irrelevant_file = Content [stamped alice ''2023-11-15T22:13:20+00:00''] \<rparr>"
    by (simp add: save_account_def save_account_body_def write_json_def try_except_def Let_def
        default_config_def alice_def user_object_def stamped_def dict_values_def followers_of_def
        init_state_def)
  have second: "fst (save_account default_config ''2023-12-14T22:13:20+00:00'' WriteOk True
     (\<lparr> relevant_accounts = [],
          irrelevant_accounts = [(''7'', stamped alice ''2023-11-15T22:13:20+00:00'')],
          relevant_file = Missing,
          irrelevant_file = Content [stamped alice ''2023-11-15T22:13:20+00:00''] \<rparr>,
      alice))
   = (\<lparr> relevant_accounts = [(''7'', stamped alice ''2023-12-14T22:13:20+00:00'')],
        irrelevant_accounts = [],
        relevant_file = Content [stamped alice ''2023-12-14T22:13:20+00:00''],
        irrelevant_file = Content [stamped alice ''2023-11-15T22:13:20+00:00''] \<rparr>,
      stamped alice ''2023-12-14T22:13:20+00:00'')"
    by (simp add: save_account_def save_account_body_def write_json_def try_except_def Let_def
        default_config_def alice_def user_object_def stamped_def dict_values_def)
  have ids: "id_key (stamped alice t) = Some ''7''" and names: "username (stamped alice t) = Some ''alice''"
    and checked: "last_checked_at (stamped alice t) = None" for t
    by (simp_all add: stamped_def alice_def user_object_def)
  have loop: "purge_loop purge_world (Some [(''alice'', [post_with ''1'' ''2023-12-10T10:00:00Z''])])
                [stamped alice ''2023-12-14T22:13:20+00:00''] [] []
              = Returns ([(stamped alice ''2023-12-14T22:13:20+00:00'')
                            \<lparr>last_relevant_tweet_count := Some 1,
                              last_checked_at := Some ''2023-12-15T22:13:20+00:00''\<rparr>], [])"
    by (simp add: ids names checked purge_world_def iso_table_def reporting_def
        fetched_followers_def followers_of_def user_object_def every_post_recent_def
        inactive_def MAX_FOLLOWERS_def Let_def post_with_def)
  have disks: "relevant_disk purge_world = WriteOk" "irrelevant_disk purge_world = WriteOk"
    by (simp_all add: purge_world_def)
  have purge: "purge_irrelevant_accounts purge_world
       (Content [stamped alice ''2023-12-14T22:13:20+00:00''],
        Content [stamped alice ''2023-11-15T22:13:20+00:00''],
        Content [(''alice'', [post_with ''1'' ''2023-12-10T10:00:00Z''])])
     = ((Content [(stamped alice ''2023-12-14T22:13:20+00:00'')
                    \<lparr>last_relevant_tweet_count := Some 1,
                      last_checked_at := Some ''2023-12-15T22:13:20+00:00''\<rparr>],
         Content [stamped alice ''2023-11-15T22:13:20+00:00'']),
        Returns ())"
    by (simp add: purge_irrelevant_accounts_def load_json_def loop disks write_json_def
        del: purge_loop.simps)
  have fresh: "fresh_enough decay_table 1702592000000000
                 (stamped alice ''2023-11-15T22:13:20+00:00'') = Returns True"
    by (simp add: fresh_enough_def stamped_def alice_def user_object_def decay_table_def
        iso_table_def timedelta_days_def microseconds_per_day_def)
  have reload: "load_existing_accounts decay_table 1702592000000000
       (init_state (Content [stamped alice ''2023-12-14T22:13:20+00:00''])
                   (Content [stamped alice ''2023-11-15T22:13:20+00:00'']))
     = (\<lparr> relevant_accounts = [(''7'', stamped alice ''2023-12-14T22:13:20+00:00'')],
          irrelevant_accounts = [(''7'', stamped alice ''2023-11-15T22:13:20+00:00'')],
          relevant_file = Content [stamped alice ''2023-12-14T22:13:20+00:00''],
          irrelevant_file = Content [stamped alice ''2023-11-15T22:13:20+00:00''] \<rparr>,
        Returns ())"
    by (simp add: load_existing_accounts_def init_state_def ids fresh)
  show ?thesis
    unfolding first second purge reload by simp
qed

end
